theory Spec2Isabelle
  imports Complex_Main
begin

section \<open>JavaScript numbers\<close>

text \<open>
  The suite computes with JavaScript numbers. They are modelled as the reals extended by
  the two infinities and NaN, with the IEEE rules for the special values: NaN is absorbing,
  \<open>0/0\<close>, \<open>Infinity - Infinity\<close> and \<open>0 * Infinity\<close> are NaN, the square root of a
  negative number is NaN, and every comparison with NaN is false. Two idealisations are
  made and hold throughout: finite arithmetic is exact (no rounding, no overflow), and zero
  carries no sign, so a non-zero finite number divided by zero takes the sign of the numerator.
\<close>

datatype jsnum = Num real | PInf | NInf | NaN

fun js_add :: "jsnum \<Rightarrow> jsnum \<Rightarrow> jsnum" where
  "js_add (Num a) (Num b) = Num (a + b)"
| "js_add NaN _ = NaN"
| "js_add _ NaN = NaN"
| "js_add PInf NInf = NaN"
| "js_add NInf PInf = NaN"
| "js_add PInf _ = PInf"
| "js_add _ PInf = PInf"
| "js_add NInf _ = NInf"
| "js_add _ NInf = NInf"

fun js_neg :: "jsnum \<Rightarrow> jsnum" where
  "js_neg (Num a) = Num (- a)"
| "js_neg PInf = NInf"
| "js_neg NInf = PInf"
| "js_neg NaN = NaN"

fun js_mul :: "jsnum \<Rightarrow> jsnum \<Rightarrow> jsnum" where
  "js_mul (Num a) (Num b) = Num (a * b)"
| "js_mul NaN _ = NaN"
| "js_mul _ NaN = NaN"
| "js_mul PInf (Num b) = (if b = 0 then NaN else if 0 < b then PInf else NInf)"
| "js_mul NInf (Num b) = (if b = 0 then NaN else if 0 < b then NInf else PInf)"
| "js_mul (Num a) PInf = (if a = 0 then NaN else if 0 < a then PInf else NInf)"
| "js_mul (Num a) NInf = (if a = 0 then NaN else if 0 < a then NInf else PInf)"
| "js_mul PInf PInf = PInf"
| "js_mul NInf NInf = PInf"
| "js_mul PInf NInf = NInf"
| "js_mul NInf PInf = NInf"

fun js_div :: "jsnum \<Rightarrow> jsnum \<Rightarrow> jsnum" where
  "js_div (Num a) (Num b) =
     (if b \<noteq> 0 then Num (a / b)
      else if a = 0 then NaN else if 0 < a then PInf else NInf)"
| "js_div NaN _ = NaN"
| "js_div _ NaN = NaN"
| "js_div (Num a) PInf = Num 0"
| "js_div (Num a) NInf = Num 0"
| "js_div PInf (Num b) = (if 0 \<le> b then PInf else NInf)"
| "js_div NInf (Num b) = (if 0 \<le> b then NInf else PInf)"
| "js_div PInf PInf = NaN"
| "js_div PInf NInf = NaN"
| "js_div NInf PInf = NaN"
| "js_div NInf NInf = NaN"

fun js_lt :: "jsnum \<Rightarrow> jsnum \<Rightarrow> bool" where
  "js_lt (Num a) (Num b) = (a < b)"
| "js_lt NaN _ = False"
| "js_lt _ NaN = False"
| "js_lt _ NInf = False"
| "js_lt PInf _ = False"
| "js_lt NInf _ = True"
| "js_lt _ PInf = True"

fun js_le :: "jsnum \<Rightarrow> jsnum \<Rightarrow> bool" where
  "js_le (Num a) (Num b) = (a \<le> b)"
| "js_le NaN _ = False"
| "js_le _ NaN = False"
| "js_le NInf _ = True"
| "js_le _ PInf = True"
| "js_le _ NInf = False"
| "js_le PInf _ = False"

text \<open>
  The arithmetic and comparison operators of the source are written with the usual symbols:
  \<open>x + y\<close>, \<open>x - y\<close>, \<open>x * y\<close>, \<open>x / y\<close>, \<open>x < y\<close>, \<open>x \<le> y\<close> (and \<open>x > y\<close>
  for \<open>y < x\<close>) on \<^typ>\<open>jsnum\<close> are the JavaScript operators. The comparisons are not an
  order: \<open>x \<le> y\<close> is not the negation of \<open>y < x\<close> when one side is NaN.
\<close>

instantiation jsnum :: "{plus, minus, uminus, times, inverse, ord}"
begin

definition plus_jsnum :: "jsnum \<Rightarrow> jsnum \<Rightarrow> jsnum" where
  "plus_jsnum = js_add"

definition uminus_jsnum :: "jsnum \<Rightarrow> jsnum" where
  "uminus_jsnum = js_neg"

definition minus_jsnum :: "jsnum \<Rightarrow> jsnum \<Rightarrow> jsnum" where
  "minus_jsnum x y = js_add x (js_neg y)"

definition times_jsnum :: "jsnum \<Rightarrow> jsnum \<Rightarrow> jsnum" where
  "times_jsnum = js_mul"

definition divide_jsnum :: "jsnum \<Rightarrow> jsnum \<Rightarrow> jsnum" where
  "divide_jsnum = js_div"

definition inverse_jsnum :: "jsnum \<Rightarrow> jsnum" where
  "inverse_jsnum x = js_div (Num 1) x"

definition less_jsnum :: "jsnum \<Rightarrow> jsnum \<Rightarrow> bool" where
  "less_jsnum = js_lt"

definition less_eq_jsnum :: "jsnum \<Rightarrow> jsnum \<Rightarrow> bool" where
  "less_eq_jsnum = js_le"

instance ..

end

text \<open>\<open>Math.sqrt\<close>, \<open>Math.abs\<close>, \<open>Math.max\<close>, \<open>Math.min\<close>, \<open>Math.floor\<close>, \<open>isNaN\<close> and
  \<open>Math.pow\<close> with a literal positive integer exponent.\<close>

fun js_sqrt :: "jsnum \<Rightarrow> jsnum" where
  "js_sqrt (Num a) = (if a < 0 then NaN else Num (sqrt a))"
| "js_sqrt PInf = PInf"
| "js_sqrt NInf = NaN"
| "js_sqrt NaN = NaN"

fun js_abs :: "jsnum \<Rightarrow> jsnum" where
  "js_abs (Num a) = Num \<bar>a\<bar>"
| "js_abs PInf = PInf"
| "js_abs NInf = PInf"
| "js_abs NaN = NaN"

definition isNaN :: "jsnum \<Rightarrow> bool" where
  "isNaN x = (x = NaN)"

definition js_max :: "jsnum \<Rightarrow> jsnum \<Rightarrow> jsnum" where
  "js_max x y = (if isNaN x \<or> isNaN y then NaN else if x < y then y else x)"

definition js_min :: "jsnum \<Rightarrow> jsnum \<Rightarrow> jsnum" where
  "js_min x y = (if isNaN x \<or> isNaN y then NaN else if y < x then y else x)"

fun js_floor :: "jsnum \<Rightarrow> jsnum" where
  "js_floor (Num a) = Num (of_int \<lfloor>a\<rfloor>)"
| "js_floor PInf = PInf"
| "js_floor NInf = NInf"
| "js_floor NaN = NaN"

primrec js_pow :: "jsnum \<Rightarrow> nat \<Rightarrow> jsnum" where
  "js_pow x 0 = Num 1"
| "js_pow x (Suc n) = x * js_pow x n"


section \<open>The calculation engine (\<open>calculationEngine\<close>)\<close>

text \<open>
  The field \<open>type\<close> of a beam record holds a string or, once a unit conversion has
  multiplied it by a factor, a number. The number itself is not kept (\<open>Numeric\<close>): the
  field is only ever compared with strings, and no number equals a string.
\<close>

datatype type_value = Str string | Numeric

text \<open>
  The beam parameter record \<open>state.beam\<close>, with the field \<open>factoredUDL\<close> that
  \<open>runBeamAnalysis\<close> adds. The fields are prefixed with \<open>m_\<close> (the source calls the
  record \<open>metric\<close>).
\<close>

record metric =
  m_type :: type_value
  m_L :: jsnum
  m_b :: jsnum
  m_D :: jsnum
  m_DL :: jsnum
  m_LL :: jsnum
  m_fck :: jsnum
  m_fy :: jsnum
  m_cover :: jsnum
  m_factoredUDL :: jsnum

record forces =
  maxShear :: jsnum
  maxMoment :: jsnum
  maxDeflection :: jsnum

definition calculateBeamForces :: "metric \<Rightarrow> forces" where
  "calculateBeamForces metric =
    (let L = m_L metric; factoredUDL = m_factoredUDL metric; type = m_type metric;
         E = Num 5000 * js_sqrt (m_fck metric);
         I = (m_b metric * js_pow (m_D metric) 3) / Num 12;
         w = factoredUDL * Num 1000;
         w_mm = w / Num 1000;
         (maxShear, maxMoment, maxDeflection) =
           (if type = Str ''simply-supported'' then
              (factoredUDL * L / Num 2,
               factoredUDL * L * L / Num 8,
               (Num 5 * w * js_pow L 4) / (Num 384 * E * I))
            else if type = Str ''cantilever'' then
              (factoredUDL * L,
               factoredUDL * L * L / Num 2,
               (w * js_pow L 4) / (Num 8 * E * I))
            else if type = Str ''fixed'' then
              (factoredUDL * L / Num 2,
               factoredUDL * L * L / Num 12,
               (w * js_pow L 4) / (Num 384 * E * I))
            else (Num 0, Num 0, Num 0))
     in \<lparr> maxShear = js_abs maxShear,
          maxMoment = js_abs maxMoment,
          maxDeflection = js_abs (maxDeflection * Num 1000) \<rparr>)"

definition calculateDoublyReinforcedSteel ::
  "jsnum \<Rightarrow> jsnum \<Rightarrow> jsnum \<Rightarrow> jsnum \<Rightarrow> jsnum \<Rightarrow> jsnum" where
  "calculateDoublyReinforcedSteel moment fck fy b d =
    (let mu_lim = Num 0.138 * fck * b * d * d;
         Ast1 = mu_lim / (Num 0.87 * fy * (d - Num 0.416 * Num 0.48 * d));
         mu2 = moment - mu_lim;
         Ast2 = mu2 / (Num 0.87 * fy * (d - Num 25))
     in Ast1 + Ast2)"

definition calculateSteelArea ::
  "jsnum \<Rightarrow> jsnum \<Rightarrow> jsnum \<Rightarrow> jsnum \<Rightarrow> jsnum \<Rightarrow> jsnum" where
  "calculateSteelArea moment fck fy b d =
    (let mu_lim = Num 0.138 * fck * b * d * d in
     if moment > mu_lim then calculateDoublyReinforcedSteel moment fck fy b d
     else
       let R = moment / (b * d * d);
           pt = (Num 50 * fck / fy) * (Num 1 - js_sqrt (Num 1 - (Num 4.6 * R) / fck));
           Ast = (pt * b * d) / Num 100;
           Ast_min = js_max (Num 0.0012 * b * d) (Num 0.85 * b * d / fy);
           Ast_max = Num 0.04 * b * d
       in js_min (js_max Ast Ast_min) Ast_max)"

definition calculateMomentCapacity ::
  "jsnum \<Rightarrow> jsnum \<Rightarrow> jsnum \<Rightarrow> jsnum \<Rightarrow> jsnum \<Rightarrow> jsnum" where
  "calculateMomentCapacity Ast fy fck b d =
    (let xu = (Num 0.87 * fy * Ast) / (Num 0.36 * fck * b);
         xu_max = Num 0.48 * d
     in if xu > xu_max then Num 0.138 * fck * b * d * d
        else Num 0.36 * fck * b * xu * (d - Num 0.416 * xu))"

text \<open>The source's fourth parameter \<open>Ast\<close> defaults to 0 when the caller omits it.\<close>

definition calculateShearCapacity :: "jsnum \<Rightarrow> jsnum \<Rightarrow> jsnum \<Rightarrow> jsnum \<Rightarrow> jsnum" where
  "calculateShearCapacity fck b d Ast =
    (let pt = (Ast * Num 100) / (b * d);
         tau_c = (if pt \<le> Num 0.15 then Num 0.28
                  else if pt \<le> Num 0.25 then Num 0.36
                  else if pt \<le> Num 0.50 then Num 0.48
                  else if pt \<le> Num 0.75 then Num 0.56
                  else if pt \<le> Num 1.00 then Num 0.62
                  else Num 0.67);
         tau_c = tau_c * js_sqrt (fck / Num 25)
     in tau_c * b * d)"


text \<open>Slab functions of the engine.\<close>

definition calculateSlabReinforcement ::
  "jsnum \<Rightarrow> jsnum \<Rightarrow> jsnum \<Rightarrow> jsnum \<Rightarrow> jsnum \<Rightarrow> jsnum" where
  "calculateSlabReinforcement moment fck fy width effectiveDepth =
    (let R = moment / (width * effectiveDepth * effectiveDepth);
         pt = (Num 50 * fck / fy) * (Num 1 - js_sqrt (Num 1 - (Num 4.6 * R) / fck));
         astRequired = (pt * width * effectiveDepth) / Num 100;
         astMin = Num 0.0012 * width * effectiveDepth
     in js_max astRequired astMin)"

record slab_forces =
  slab_maxMoment :: jsnum
  slab_maxShear :: jsnum

definition calculateSlabMoments :: "string \<Rightarrow> jsnum \<Rightarrow> jsnum \<Rightarrow> jsnum \<Rightarrow> slab_forces" where
  "calculateSlabMoments slabType length' width factoredLoad =
    (if slabType = ''one-way'' then
       (let span = js_min length' width
        in \<lparr> slab_maxMoment = factoredLoad * span * span / Num 8,
             slab_maxShear = factoredLoad * span / Num 2 \<rparr>)
     else if slabType = ''two-way'' then
       (let ly = js_max length' width;
            lx = js_min length' width;
            ratio = ly / lx;
            maxMoment =
              (if ratio \<le> Num 2 then
                 (let alpha_x = (if ratio \<le> Num 1 then Num 0.062
                                 else Num 0.062 + (Num 0.055 - Num 0.062) * (ratio - Num 1))
                  in alpha_x * factoredLoad * lx * lx)
               else factoredLoad * lx * lx / Num 8)
        in \<lparr> slab_maxMoment = maxMoment, slab_maxShear = factoredLoad * lx / Num 3 \<rparr>)
     else if slabType = ''cantilever'' then
       \<lparr> slab_maxMoment = factoredLoad * length' * length' / Num 2,
         slab_maxShear = factoredLoad * length' \<rparr>
     else \<lparr> slab_maxMoment = Num 0, slab_maxShear = Num 0 \<rparr>)"


section \<open>The member solvers built on the engine (\<open>app.js\<close>)\<close>

text \<open>
  The unit configuration \<open>state.units\<close>: the name of the system and the factors
  \<open>toMetric\<close>, keyed by field name (the display factors \<open>conversions\<close> play no part in
  the analysis). The initial state is \<open>getUnitConfig 'metric'\<close>.
\<close>

record units =
  u_system :: string
  toMetric :: "string \<rightharpoonup> jsnum"

definition getUnitConfig :: "string \<Rightarrow> units" where
  "getUnitConfig system' =
    (if system' = ''imperial'' then
       \<lparr> u_system = ''imperial'',
         toMetric = map_of [(''L'', Num 0.3048), (''b'', Num 25.4), (''D'', Num 25.4),
                            (''cover'', Num 25.4), (''DL'', Num 14.5939), (''LL'', Num 14.5939)] \<rparr>
     else
       \<lparr> u_system = ''metric'',
         toMetric = map_of [(''L'', Num 1), (''b'', Num 1), (''D'', Num 1),
                            (''cover'', Num 1), (''DL'', Num 1), (''LL'', Num 1)] \<rparr>)"

text \<open>
  \<open>conv[key] || 1\<close>: the factor of a key, 1 when the key has none (or a factor 0 or NaN).
\<close>

definition conv_or_1 :: "units \<Rightarrow> string \<Rightarrow> jsnum" where
  "conv_or_1 u key =
    (case toMetric u key of
       None \<Rightarrow> Num 1
     | Some f \<Rightarrow> if f = Num 0 \<or> isNaN f then Num 1 else f)"

text \<open>
  \<open>convertBeamStateToMetric\<close>: a copy in the metric system; otherwise every field of the
  state, the field \<open>type\<close> among them, is multiplied by its factor. (\<open>factoredUDL\<close> is
  no field of the state; it is set by \<open>runBeamAnalysis\<close> afterwards.)
\<close>

definition convertBeamStateToMetric :: "units \<Rightarrow> metric \<Rightarrow> metric" where
  "convertBeamStateToMetric u params =
    (if u_system u = ''metric'' then params
     else params\<lparr> m_type := Numeric,
                   m_L := m_L params * conv_or_1 u ''L'',
                   m_b := m_b params * conv_or_1 u ''b'',
                   m_D := m_D params * conv_or_1 u ''D'',
                   m_DL := m_DL params * conv_or_1 u ''DL'',
                   m_LL := m_LL params * conv_or_1 u ''LL'',
                   m_fck := m_fck params * conv_or_1 u ''fck'',
                   m_fy := m_fy params * conv_or_1 u ''fy'',
                   m_cover := m_cover params * conv_or_1 u ''cover'' \<rparr>)"

text \<open>
  \<open>runBeamAnalysis\<close> of \<open>app.js\<close>, from the unit configuration and the beam record of
  the state. The result record holds the values handed to the display, and the local
  \<open>Ast_req\<close> beside them.
\<close>

record beam_results =
  res_forces :: forces
  res_Ast_req :: jsnum
  res_Ast_min :: jsnum
  res_Ast_prov :: jsnum
  res_momentCapacity :: jsnum
  res_shearCapacity :: jsnum
  res_utilization :: jsnum
  res_deflectionLimit :: jsnum
  res_isSafe :: bool

definition runBeamAnalysis :: "units \<Rightarrow> metric \<Rightarrow> beam_results" where
  "runBeamAnalysis u params =
    (let metric = convertBeamStateToMetric u params;
         metric = metric\<lparr> m_factoredUDL := Num 1.5 * (m_DL metric + m_LL metric) \<rparr>;
         forces = calculateBeamForces metric;
         d = m_D metric - m_cover metric - Num 10;
         Ast_req = calculateSteelArea (maxMoment forces * Num 1000000)
                     (m_fck metric) (m_fy metric) (m_b metric) d;
         Ast_min = Num 0.0012 * m_b metric * d;
         Ast_prov = js_max Ast_req Ast_min;
         momentCapacity = calculateMomentCapacity Ast_prov (m_fy metric) (m_fck metric) (m_b metric) d;
         shearCapacity = calculateShearCapacity (m_fck metric) (m_b metric) d Ast_prov;
         utilization = (if momentCapacity > Num 0
                        then (maxMoment forces * Num 1000000) / momentCapacity else Num 1);
         deflectionLimit = (m_L metric * Num 1000) / Num 250;
         isSafe = (utilization \<le> Num 1.0 \<and> maxDeflection forces \<le> deflectionLimit)
     in \<lparr> res_forces = forces, res_Ast_req = Ast_req, res_Ast_min = Ast_min,
          res_Ast_prov = Ast_prov, res_momentCapacity = momentCapacity,
          res_shearCapacity = shearCapacity, res_utilization = utilization,
          res_deflectionLimit = deflectionLimit, res_isSafe = isSafe \<rparr>)"

text \<open>
  The reinforcement part of \<open>runSlabDesign\<close>: effective depth, factored load, forces,
  required steel, the minimum and maximum steel and the provided steel. (Bar spacing,
  deflection and crack width, computed afterwards from these, are not modelled.)
\<close>

record slab_params =
  s_type :: string
  s_length :: jsnum
  s_width :: jsnum
  s_thickness :: jsnum
  s_DL :: jsnum
  s_LL :: jsnum
  s_fck :: jsnum
  s_fy :: jsnum
  s_cover :: jsnum

record slab_steel =
  astRequired :: jsnum
  astMin :: jsnum
  astMax :: jsnum
  astProvided :: jsnum

definition runSlabDesign :: "slab_params \<Rightarrow> slab_steel" where
  "runSlabDesign params =
    (let effectiveDepth = s_thickness params - s_cover params - Num 8;
         factoredLoad = Num 1.5 * (s_DL params + s_LL params);
         forces = calculateSlabMoments (s_type params) (s_length params) (s_width params) factoredLoad;
         astRequired = calculateSlabReinforcement (slab_maxMoment forces * Num 1000000)
                         (s_fck params) (s_fy params) (Num 1000) effectiveDepth;
         astMin = Num 0.0012 * Num 1000 * s_thickness params;
         astMax = Num 0.04 * Num 1000 * effectiveDepth;
         astProvided = js_min (js_max astRequired astMin) astMax
     in \<lparr> astRequired = astRequired, astMin = astMin, astMax = astMax,
          astProvided = astProvided \<rparr>)"

text \<open>The reinforcement part of \<open>runColumnDesign\<close>.\<close>

record column_params =
  col_width :: jsnum
  col_depth :: jsnum
  col_axialLoad :: jsnum
  col_fck :: jsnum
  col_fy :: jsnum

record column_steel =
  steelAreaRequired :: jsnum
  col_astMin :: jsnum
  col_astMax :: jsnum
  col_astProvided :: jsnum

definition runColumnDesign :: "column_params \<Rightarrow> column_steel" where
  "runColumnDesign params =
    (let area = col_width params * col_depth params;
         astMin = Num 0.008 * area;
         astMax = Num 0.04 * area;
         pu = col_axialLoad params * Num 1000;
         factoredLoad = Num 1.5 * pu;
         concreteCapacity = Num 0.4 * col_fck params * area;
         steelAreaRequired =
           js_max ((factoredLoad - concreteCapacity) / (Num 0.67 * col_fy params)) astMin;
         astProvided = js_min steelAreaRequired astMax
     in \<lparr> steelAreaRequired = steelAreaRequired, col_astMin = astMin, col_astMax = astMax,
          col_astProvided = astProvided \<rparr>)"


section \<open>The self-contained suite, version 2.0\<close>

text \<open>
  The version 2.0 application class carries its own copies of the section formulas and a
  material table. Its functions are suffixed \<open>_v2\<close> here.
\<close>

record concrete_grade =
  grade_fck :: jsnum
  Ec :: jsnum
  density :: jsnum

record steel_grade =
  grade_fy :: jsnum
  Es :: jsnum

definition materialDB_concrete :: "jsnum \<rightharpoonup> concrete_grade" where
  "materialDB_concrete = map_of
    [(Num 20, \<lparr> grade_fck = Num 20, Ec = Num 22360, density = Num 25 \<rparr>),
     (Num 25, \<lparr> grade_fck = Num 25, Ec = Num 25000, density = Num 25 \<rparr>),
     (Num 30, \<lparr> grade_fck = Num 30, Ec = Num 27386, density = Num 25 \<rparr>),
     (Num 35, \<lparr> grade_fck = Num 35, Ec = Num 29580, density = Num 25 \<rparr>),
     (Num 40, \<lparr> grade_fck = Num 40, Ec = Num 31623, density = Num 25 \<rparr>)]"

definition materialDB_steel :: "jsnum \<rightharpoonup> steel_grade" where
  "materialDB_steel = map_of
    [(Num 415, \<lparr> grade_fy = Num 415, Es = Num 200000 \<rparr>),
     (Num 500, \<lparr> grade_fy = Num 500, Es = Num 200000 \<rparr>),
     (Num 550, \<lparr> grade_fy = Num 550, Es = Num 200000 \<rparr>)]"

definition calculateMomentOfInertia :: "jsnum \<Rightarrow> jsnum \<Rightarrow> jsnum" where
  "calculateMomentOfInertia b D = (b * js_pow D 3) / Num 12"

definition calculateSteelArea_v2 ::
  "jsnum \<Rightarrow> jsnum \<Rightarrow> jsnum \<Rightarrow> jsnum \<Rightarrow> jsnum \<Rightarrow> jsnum" where
  "calculateSteelArea_v2 M fck fy b d =
    (let fsc = Num 0.87 * fy;
         xulim = (Num 0.0035 / (Num 0.0055 + Num 0.87 * fy / Num 200000)) * d;
         Mulim = Num 0.138 * fck * b * d * d
     in if M \<le> Mulim then
          (let k = M / (fck * b * d * d);
               la = Num 0.5 * (Num 1 + js_sqrt (Num 1 - Num 4.598 * k));
               z = la * d
           in M / (Num 0.87 * fy * z))
        else
          (let M1 = Mulim;
               M2 = M - M1;
               Ast1 = M1 / (Num 0.87 * fy * (d - Num 0.416 * xulim));
               Ast2 = M2 / (Num 0.87 * fy * (d - Num 50))
           in Ast1 + Ast2))"

definition calculateMomentCapacity_v2 ::
  "jsnum \<Rightarrow> jsnum \<Rightarrow> jsnum \<Rightarrow> jsnum \<Rightarrow> jsnum \<Rightarrow> jsnum" where
  "calculateMomentCapacity_v2 Ast fy fck b d =
    (let fsc = Num 0.87 * fy;
         x = (fsc * Ast) / (Num 0.36 * fck * b);
         z = d - Num 0.416 * x
     in Num 0.87 * fy * Ast * z)"

definition calculateShearCapacity_v2 :: "jsnum \<Rightarrow> jsnum \<Rightarrow> jsnum \<Rightarrow> jsnum" where
  "calculateShearCapacity_v2 fck b d =
    (let tau_c = Num 0.25 * js_sqrt fck
     in tau_c * b * d)"

text \<open>
  The grade lookup of \<open>calculateMaterialQuantities\<close> in the same class:
  \<open>mixRatios[grade] || mixRatios[25]\<close>, the \<open>ratio\<close> it computes with.
\<close>

record mix_ratio =
  cement :: jsnum
  sand :: jsnum
  aggregate :: jsnum
  water :: jsnum

definition mixRatios :: "jsnum \<rightharpoonup> mix_ratio" where
  "mixRatios = map_of
    [(Num 20, \<lparr> cement = Num 1, sand = Num 1.5, aggregate = Num 3, water = Num 0.5 \<rparr>),
     (Num 25, \<lparr> cement = Num 1, sand = Num 1, aggregate = Num 2, water = Num 0.45 \<rparr>),
     (Num 30, \<lparr> cement = Num 1, sand = Num 0.8, aggregate = Num 1.8, water = Num 0.4 \<rparr>),
     (Num 35, \<lparr> cement = Num 1, sand = Num 0.7, aggregate = Num 1.6, water = Num 0.35 \<rparr>),
     (Num 40, \<lparr> cement = Num 1, sand = Num 0.6, aggregate = Num 1.4, water = Num 0.3 \<rparr>)]"

definition materialQuantities_ratio :: "jsnum \<Rightarrow> mix_ratio option" where
  "materialQuantities_ratio grade =
    (case mixRatios grade of Some r \<Rightarrow> Some r | None \<Rightarrow> mixRatios (Num 25))"

text \<open>
  The inputs \<open>runBeamAnalysis\<close> reads from the page, named by their element ids.
\<close>

record beam_inputs =
  beamLength :: jsnum
  beamUDL :: jsnum
  beamPointLoad :: jsnum
  beamPointLoadPos :: jsnum
  beamType :: string
  beamWidth :: jsnum
  beamDepth :: jsnum
  beamFck :: jsnum
  beamFy :: jsnum
  beamCover :: jsnum

record beam_forces_v2 =
  reactions_left :: jsnum
  reactions_right :: jsnum
  middleReaction :: jsnum
  v2_maxShear :: jsnum
  v2_maxMoment :: jsnum
  v2_maxDeflection :: jsnum

text \<open>
  The \<open>switch\<close> over the support type. Every case reads \<open>concrete.Ec\<close>, which throws a
  TypeError when the material lookup gave \<open>undefined\<close>: that is the result \<open>None\<close>. A type
  outside the four cases leaves the initial zeros. (\<open>middleReaction\<close> exists in the
  continuous case only and is 0 otherwise here.)
\<close>

definition beamForces_v2 ::
  "string \<Rightarrow> jsnum \<Rightarrow> jsnum \<Rightarrow> jsnum \<Rightarrow> jsnum \<Rightarrow> jsnum \<Rightarrow> jsnum \<Rightarrow> concrete_grade option
     \<Rightarrow> beam_forces_v2 option" where
  "beamForces_v2 type L w P a b D concrete =
    (if type = ''simply-supported'' then
       (let left = (w * L) / Num 2 + (P * (L - a)) / L;
            right = (w * L) / Num 2 + (P * a) / L;
            maxShear = js_max left right;
            M_udl = (w * L * L) / Num 8;
            M_point = (P * a * (L - a)) / L;
            maxMoment = M_udl + M_point;
            I = calculateMomentOfInertia b D
        in case concrete of None \<Rightarrow> None
           | Some c \<Rightarrow>
              (let deflection_udl = (Num 5 * w * js_pow L 4) / (Num 384 * Ec c * I * Num 1000000);
                   deflection_point =
                     (P * a * (Num 3 * L * L - Num 4 * a * a)) / (Num 48 * Ec c * I * Num 1000000)
               in Some \<lparr> reactions_left = left, reactions_right = right, middleReaction = Num 0,
                         v2_maxShear = maxShear, v2_maxMoment = maxMoment,
                         v2_maxDeflection = (deflection_udl + deflection_point) * Num 1000 \<rparr>))
     else if type = ''cantilever'' then
       (let left = w * L + P;
            maxShear = left;
            maxMoment = (w * L * L) / Num 2 + P * a;
            I_cantilever = calculateMomentOfInertia b D
        in case concrete of None \<Rightarrow> None
           | Some c \<Rightarrow>
              (let deflection_cantilever_udl =
                     (w * js_pow L 4) / (Num 8 * Ec c * I_cantilever * Num 1000000);
                   deflection_cantilever_point =
                     (P * js_pow a 3) / (Num 3 * Ec c * I_cantilever * Num 1000000)
               in Some \<lparr> reactions_left = left, reactions_right = Num 0, middleReaction = Num 0,
                         v2_maxShear = maxShear, v2_maxMoment = maxMoment,
                         v2_maxDeflection =
                           (deflection_cantilever_udl + deflection_cantilever_point) * Num 1000 \<rparr>))
     else if type = ''fixed'' then
       (let left = (w * L) / Num 2;
            right = (w * L) / Num 2;
            maxShear = left;
            maxMoment = (w * L * L) / Num 12;
            I_fixed = calculateMomentOfInertia b D
        in case concrete of None \<Rightarrow> None
           | Some c \<Rightarrow>
               Some \<lparr> reactions_left = left, reactions_right = right, middleReaction = Num 0,
                      v2_maxShear = maxShear, v2_maxMoment = maxMoment,
                      v2_maxDeflection =
                        (w * js_pow L 4) / (Num 384 * Ec c * I_fixed * Num 1000000) * Num 1000 \<rparr>)
     else if type = ''continuous'' then
       (let left = (Num 3 * w * L) / Num 8;
            right = (Num 3 * w * L) / Num 8;
            middle = (Num 10 * w * L) / Num 8;
            maxShear = js_max (js_max left right) middle;
            maxMoment = (w * L * L) / Num 8;
            I_continuous = calculateMomentOfInertia b D
        in case concrete of None \<Rightarrow> None
           | Some c \<Rightarrow>
               Some \<lparr> reactions_left = left, reactions_right = right, middleReaction = middle,
                      v2_maxShear = maxShear, v2_maxMoment = maxMoment,
                      v2_maxDeflection =
                        (w * js_pow L 4) / (Num 185 * Ec c * I_continuous * Num 1000000) * Num 1000 \<rparr>)
     else Some \<lparr> reactions_left = Num 0, reactions_right = Num 0, middleReaction = Num 0,
                 v2_maxShear = Num 0, v2_maxMoment = Num 0, v2_maxDeflection = Num 0 \<rparr>)"

datatype beam_abort = NoAnalysis | TypeError

text \<open>
  The shear reinforcement call-out: the fixed text \<open>Minimum shear reinforcement required\<close>,
  or \<open>2L T8 @ n mm c/c\<close> with the spacing \<open>n\<close>.
\<close>

datatype shear_reinforcement = MinimumShearReinforcement | Stirrups jsnum

record beam_results_v2 =
  v2_forces :: beam_forces_v2
  v2_Ast_req :: jsnum
  v2_Ast_min :: jsnum
  v2_Ast :: jsnum
  v2_momentCapacity :: jsnum
  v2_shearCapacity :: jsnum
  v2_utilization :: jsnum
  v2_shearStress :: jsnum
  v2_concreteShearStrength :: jsnum
  v2_shearReinforcement :: shear_reinforcement
  v2_designStatus :: string
  v2_isSafe :: bool

text \<open>
  \<open>runBeamAnalysis\<close> of version 2.0, up to the values it writes into the page (the
  formatting of the numbers and the diagrams are not modelled; \<open>designStatus\<close> is the text
  of the element \<open>beamDesignStatus\<close>). It returns without a result for a span that is NaN
  or not positive (\<open>NoAnalysis\<close>).
\<close>

definition runBeamAnalysis_v2 :: "beam_inputs \<Rightarrow> beam_abort + beam_results_v2" where
  "runBeamAnalysis_v2 inp =
    (let L = beamLength inp; w = beamUDL inp; P = beamPointLoad inp; a = beamPointLoadPos inp;
         type = beamType inp;
         b = beamWidth inp / Num 1000;
         D = beamDepth inp / Num 1000;
         fck = beamFck inp; fy = beamFy inp;
         cover = beamCover inp / Num 1000
     in if isNaN L \<or> L \<le> Num 0 then Inl NoAnalysis
        else
          (let concrete = materialDB_concrete fck;
               steel = materialDB_steel fy
           in case beamForces_v2 type L w P a b D concrete of
                None \<Rightarrow> Inl TypeError
              | Some f \<Rightarrow>
                 (let maxShear = v2_maxShear f; maxMoment = v2_maxMoment f;
                      maxDeflection = v2_maxDeflection f;
                      d = D * Num 1000 - cover * Num 1000 - Num 10;
                      Ast_req = calculateSteelArea_v2 (maxMoment * Num 1000000) fck fy (b * Num 1000) d;
                      Ast_min = js_max (Num 0.0012 * b * Num 1000 * D * Num 1000)
                                       (Num 0.85 * b * Num 1000 * d / fy);
                      Ast = js_max Ast_req Ast_min;
                      momentCapacity = calculateMomentCapacity_v2 Ast fy fck (b * Num 1000) d;
                      shearCapacity = calculateShearCapacity_v2 fck (b * Num 1000) d;
                      utilization = (maxMoment * Num 1000000) / momentCapacity;
                      shearStress = (maxShear * Num 1000) / (b * Num 1000 * d);
                      concreteShearStrength = Num 0.25 * js_sqrt fck;
                      shearReinforcement =
                        (if shearStress > concreteShearStrength then
                           (let Vus = maxShear * Num 1000
                                        - (Num 0.5 * js_sqrt fck * b * Num 1000 * d);
                                Asv_req = (Vus * Num 1000) / (Num 0.87 * fy * d)
                            in Stirrups (js_min (js_floor ((Num 2 * Num 50.3 * Num 1000) / Asv_req))
                                                (Num 300)))
                         else MinimumShearReinforcement);
                      designStatus = (if utilization \<le> Num 1 then ''Adequate'' else ''Inadequate'');
                      isSafe = (momentCapacity \<ge> maxMoment * Num 1000000 \<and>
                                shearCapacity \<ge> maxShear * Num 1000 \<and>
                                maxDeflection < L * Num 1000 / Num 250)
                  in Inr \<lparr> v2_forces = f, v2_Ast_req = Ast_req, v2_Ast_min = Ast_min, v2_Ast = Ast,
                           v2_momentCapacity = momentCapacity, v2_shearCapacity = shearCapacity,
                           v2_utilization = utilization, v2_shearStress = shearStress,
                           v2_concreteShearStrength = concreteShearStrength,
                           v2_shearReinforcement = shearReinforcement,
                           v2_designStatus = designStatus,
                           v2_isSafe = isSafe \<rparr>)))"


section \<open>The first version of the suite\<close>

text \<open>
  The oldest variant has a third copy of the moment capacity, and computes the shear
  capacity of a beam inline in its \<open>runBeamAnalysis\<close> (in kN, from the width \<open>b\<close> in
  metres and the effective depth \<open>d\<close> in millimetres).
\<close>

definition calculateMomentCapacity_v1 ::
  "jsnum \<Rightarrow> jsnum \<Rightarrow> jsnum \<Rightarrow> jsnum \<Rightarrow> jsnum \<Rightarrow> jsnum" where
  "calculateMomentCapacity_v1 Ast fy fck b d =
    (let fsc = Num 0.87 * fy;
         x = (fsc * Ast) / (Num 0.36 * fck * b)
     in Num 0.36 * fck * b * x * (d - Num 0.416 * x))"

definition shearCapacity_v1 :: "jsnum \<Rightarrow> jsnum \<Rightarrow> jsnum \<Rightarrow> jsnum" where
  "shearCapacity_v1 fck b d = Num 0.5 * js_sqrt fck * b * Num 1000 * d / Num 1000"


section \<open>Properties\<close>

subsection \<open>Arithmetic on finite numbers\<close>

lemmas js_ops = plus_jsnum_def uminus_jsnum_def minus_jsnum_def times_jsnum_def
  divide_jsnum_def less_jsnum_def less_eq_jsnum_def

lemma Num_arith [simp]:
  "Num x + Num y = Num (x + y)"
  "Num x - Num y = Num (x - y)"
  "Num x * Num y = Num (x * y)"
  "- Num x = Num (- x)"
  "y \<noteq> 0 \<Longrightarrow> Num x / Num y = Num (x / y)"
  "Num x / Num 0 = (if x = 0 then NaN else if 0 < x then PInf else NInf)"
  by (simp_all add: js_ops)

lemma Num_compare [simp]:
  "Num x < Num y \<longleftrightarrow> x < y"
  "Num x \<le> Num y \<longleftrightarrow> x \<le> y"
  by (simp_all add: js_ops)

lemma Num_finite [simp]: "Num x < PInf" "NInf < Num x"
  by (simp_all add: js_ops)

lemma js_pow_Num [simp]: "js_pow (Num a) n = Num (a ^ n)"
  by (induction n) simp_all

lemma js_abs_nonneg: "js_abs x = NaN \<or> Num 0 \<le> js_abs x"
  by (cases x) (simp_all add: js_ops)

lemma js_abs_not_neg: "\<not> js_abs x < Num 0"
  by (cases x) (simp_all add: js_ops)

lemma js_max_Num [simp]: "js_max (Num x) (Num y) = Num (max x y)"
  by (simp add: js_max_def isNaN_def)

lemma js_min_Num [simp]: "js_min (Num x) (Num y) = Num (min x y)"
  by (simp add: js_min_def isNaN_def)

lemma js_sqrt_Num [simp]: "0 \<le> a \<Longrightarrow> js_sqrt (Num a) = Num (sqrt a)"
  by simp

lemma sqrt_25: "sqrt 25 = 5"
  by (rule real_sqrt_unique) simp_all

lemma sqrt_hundredth: "sqrt (1 / 100) = 1 / 10"
  by (rule real_sqrt_unique) (simp_all add: power2_eq_square)

text \<open>\<open>Math.max\<close> and \<open>Math.min\<close> on values that are not NaN.\<close>

lemma js_max_ge:
  assumes "x \<noteq> NaN" "y \<noteq> NaN"
  shows "x \<le> js_max x y \<and> y \<le> js_max x y \<and> js_max x y \<noteq> NaN"
  using assms by (cases x; cases y) (auto simp add: js_max_def isNaN_def js_ops)

lemma js_min_ge_iff:
  assumes "x \<noteq> NaN" "y \<noteq> NaN"
  shows "x \<le> js_min x y \<longleftrightarrow> x \<le> y"
  using assms by (cases x; cases y) (auto simp add: js_min_def isNaN_def js_ops)

lemma js_max_le_iff:
  assumes "x \<noteq> NaN" "y \<noteq> NaN" "z \<noteq> NaN"
  shows "js_max x y \<le> z \<longleftrightarrow> x \<le> z \<and> y \<le> z"
  using assms by (cases x; cases y; cases z) (auto simp add: js_max_def isNaN_def js_ops)


subsection \<open>Beam forces of the engine\<close>

text \<open>
  Claim C10 (for every parameter record the three results of the beam force computation
  are non-negative), as stated, fails: a record with \<open>fck = -25\<close> has the modulus
  \<open>5000 \<surd>fck\<close> NaN, and the deflection returned is NaN, which is not at least 0.
\<close>

theorem beam_forces_nan_counterexample:
  "maxDeflection (calculateBeamForces \<lparr> m_type = Str ''simply-supported'', m_L = Num 6,
      m_b = Num 230, m_D = Num 450, m_DL = Num 10, m_LL = Num 15, m_fck = Num (- 25),
      m_fy = Num 500, m_cover = Num 25, m_factoredUDL = Num 37.5 \<rparr>) = NaN \<and>
   \<not> Num 0 \<le> maxDeflection (calculateBeamForces \<lparr> m_type = Str ''simply-supported'', m_L = Num 6,
      m_b = Num 230, m_D = Num 450, m_DL = Num 10, m_LL = Num 15, m_fck = Num (- 25),
      m_fy = Num 500, m_cover = Num 25, m_factoredUDL = Num 37.5 \<rparr>)"
  by (simp add: calculateBeamForces_def Let_def js_ops)

text \<open>
  Claim C10, amended. For every parameter record, whatever its fields hold, the three
  results of \<open>calculateBeamForces\<close> pass through \<open>Math.abs\<close>: each of \<open>maxShear\<close>,
  \<open>maxMoment\<close> and \<open>maxDeflection\<close> is NaN or at least 0, and none compares below 0, so
  no later check sees a negative demand.
\<close>

theorem beam_forces_never_negative:
  "(maxShear (calculateBeamForces m) = NaN \<or> Num 0 \<le> maxShear (calculateBeamForces m)) \<and>
   (maxMoment (calculateBeamForces m) = NaN \<or> Num 0 \<le> maxMoment (calculateBeamForces m)) \<and>
   (maxDeflection (calculateBeamForces m) = NaN \<or> Num 0 \<le> maxDeflection (calculateBeamForces m)) \<and>
   \<not> maxShear (calculateBeamForces m) < Num 0 \<and>
   \<not> maxMoment (calculateBeamForces m) < Num 0 \<and>
   \<not> maxDeflection (calculateBeamForces m) < Num 0"
  by (simp add: calculateBeamForces_def Let_def js_abs_nonneg js_abs_not_neg split: prod.splits)

text \<open>
  In exact arithmetic, for a positive span \<open>l\<close> and a positive uniformly distributed load
  \<open>w\<close>, the simply supported beam without point load has maximum moment \<open>w l l / 8\<close> and
  maximum shear \<open>w l / 2\<close>: in the engine's \<open>calculateBeamForces\<close> (where \<open>w\<close> is the
  factored load of the record), in \<open>runBeamAnalysis\<close> of \<open>app.js\<close> in the metric unit
  system (where \<open>w\<close> is \<open>1.5 (DL + LL)\<close>), and in \<open>runBeamAnalysis\<close> of version 2.0 with
  point load 0 at any finite position \<open>a\<close> and a concrete grade of the material table.
\<close>

lemma simply_supported_udl_forces:
  assumes "0 < l" and "0 < w"
    and "m_type m = Str ''simply-supported''" and "m_L m = Num l" and "m_factoredUDL m = Num w"
    and "m_DL m = Num dl" and "m_LL m = Num ll" and "0 < dl + ll"
    and "beamType inp = ''simply-supported''" and "beamLength inp = Num l"
    and "beamUDL inp = Num w" and "beamPointLoad inp = Num 0" and "beamPointLoadPos inp = Num a"
    and "materialDB_concrete (beamFck inp) = Some c"
  shows "maxMoment (calculateBeamForces m) = Num (w * l * l / 8) \<and>
         maxShear (calculateBeamForces m) = Num (w * l / 2) \<and>
         maxMoment (res_forces (runBeamAnalysis (getUnitConfig ''metric'') m))
           = Num (1.5 * (dl + ll) * l * l / 8) \<and>
         maxShear (res_forces (runBeamAnalysis (getUnitConfig ''metric'') m))
           = Num (1.5 * (dl + ll) * l / 2) \<and>
         (\<exists>r. runBeamAnalysis_v2 inp = Inr r \<and>
              v2_maxMoment (v2_forces r) = Num (w * l * l / 8) \<and>
              v2_maxShear (v2_forces r) = Num (w * l / 2))"
proof -
  have engine: "maxMoment (calculateBeamForces m) = Num (w * l * l / 8) \<and>
         maxShear (calculateBeamForces m) = Num (w * l / 2)"
    using assms by (simp add: calculateBeamForces_def Let_def power2_eq_square)
  have solver: "maxMoment (res_forces (runBeamAnalysis (getUnitConfig ''metric'') m))
           = Num (1.5 * (dl + ll) * l * l / 8) \<and>
         maxShear (res_forces (runBeamAnalysis (getUnitConfig ''metric'') m))
           = Num (1.5 * (dl + ll) * l / 2)"
    using assms
    by (simp add: runBeamAnalysis_def getUnitConfig_def convertBeamStateToMetric_def
        calculateBeamForces_def Let_def power2_eq_square abs_mult)
  obtain f where f: "beamForces_v2 ''simply-supported'' (Num l) (Num w) (Num 0) (Num a)
       (beamWidth inp / Num 1000) (beamDepth inp / Num 1000) (Some c) = Some f"
     and fm: "v2_maxMoment f = Num (w * l * l / 8)" and fs: "v2_maxShear f = Num (w * l / 2)"
    using assms(1,2) by (simp add: beamForces_v2_def Let_def js_max_def isNaN_def power2_eq_square)
  have "\<exists>r. runBeamAnalysis_v2 inp = Inr r \<and> v2_forces r = f"
    using assms f by (simp add: runBeamAnalysis_v2_def Let_def isNaN_def)
  with engine solver fm fs show ?thesis by auto
qed

text \<open>
  In the imperial unit system the solver of \<open>app.js\<close> returns the forces 0 for every
  record: the converted field \<open>type\<close> is a number and matches no case of the engine.
\<close>

lemma imperial_forces_zero:
  "res_forces (runBeamAnalysis (getUnitConfig ''imperial'') m)
     = \<lparr> maxShear = Num 0, maxMoment = Num 0, maxDeflection = Num 0 \<rparr>"
  by (simp add: runBeamAnalysis_def getUnitConfig_def convertBeamStateToMetric_def
      calculateBeamForces_def Let_def)

text \<open>
  Claim C7: for every positive span \<open>L\<close> and load \<open>w\<close>, the simply supported beam solver
  without point load returns the maximum moment \<open>w L\<^sup>2 / 8\<close> and the maximum shear
  \<open>w L / 2\<close>. The solver of \<open>app.js\<close> breaks it in the imperial unit system: the
  conversion multiplies the field \<open>type\<close> like every other field, the engine then finds no
  case for it, and the simply supported beam of the initial state gets shear, moment and
  deflection 0. In the metric system the same record gets the moment
  \<open>37.5 \<cdot> 6\<^sup>2 / 8 = 168.75\<close>.
\<close>

theorem imperial_beam_forces_all_zero:
  "res_forces (runBeamAnalysis (getUnitConfig ''imperial'')
      \<lparr> m_type = Str ''simply-supported'', m_L = Num 6, m_b = Num 230, m_D = Num 450,
        m_DL = Num 10, m_LL = Num 15, m_fck = Num 25, m_fy = Num 500, m_cover = Num 25,
        m_factoredUDL = Num 0 \<rparr>)
     = \<lparr> maxShear = Num 0, maxMoment = Num 0, maxDeflection = Num 0 \<rparr> \<and>
   maxMoment (res_forces (runBeamAnalysis (getUnitConfig ''metric'')
      \<lparr> m_type = Str ''simply-supported'', m_L = Num 6, m_b = Num 230, m_D = Num 450,
        m_DL = Num 10, m_LL = Num 15, m_fck = Num 25, m_fy = Num 500, m_cover = Num 25,
        m_factoredUDL = Num 0 \<rparr>)) = Num 168.75"
  by (simp add: runBeamAnalysis_def getUnitConfig_def convertBeamStateToMetric_def conv_or_1_def
      calculateBeamForces_def Let_def)

text \<open>
  Claim C8: for a positive span and load, the force computation of a continuous beam
  returns end reactions \<open>3 w L / 8\<close>, the middle reaction \<open>10 w L / 8\<close>, the moment
  \<open>w L\<^sup>2 / 8\<close> and a deflection with the coefficient \<open>1/185\<close>, so its result is not
  all zero. The engine breaks it: \<open>calculateBeamForces\<close> has no case for the support
  condition \<open>continuous\<close>, and a continuous beam of span 6 under a factored load of 37.5
  falls into the default of the \<open>switch\<close> and gets shear, moment and deflection 0.
\<close>

theorem engine_continuous_all_zero:
  "calculateBeamForces \<lparr> m_type = Str ''continuous'', m_L = Num 6, m_b = Num 230, m_D = Num 450,
      m_DL = Num 10, m_LL = Num 15, m_fck = Num 25, m_fy = Num 500, m_cover = Num 25,
      m_factoredUDL = Num 37.5 \<rparr>
   = \<lparr> maxShear = Num 0, maxMoment = Num 0, maxDeflection = Num 0 \<rparr>"
  by (simp add: calculateBeamForces_def Let_def)

text \<open>
  Version 2.0 has the case: for a positive span and load it gives end reactions
  \<open>3 w l / 8\<close>, middle reaction \<open>10 w l / 8\<close> (which is the maximum shear), moment
  \<open>w l\<^sup>2 / 8\<close>, and a deflection with the coefficient \<open>1/185\<close>.
\<close>

lemma v2_continuous_forces:
  assumes "0 < l" and "0 < w"
  shows "\<exists>f. beamForces_v2 ''continuous'' (Num l) (Num w) P a b D (Some c) = Some f \<and>
     reactions_left f = Num (3 * w * l / 8) \<and> reactions_right f = Num (3 * w * l / 8) \<and>
     middleReaction f = Num (10 * w * l / 8) \<and> v2_maxShear f = Num (10 * w * l / 8) \<and>
     v2_maxMoment f = Num (w * l\<^sup>2 / 8) \<and>
     v2_maxDeflection f =
       Num (w * l ^ 4) / (Num 185 * Ec c * calculateMomentOfInertia b D * Num 1000000) * Num 1000"
  using assms by (simp add: beamForces_v2_def Let_def power2_eq_square max_def)


subsection \<open>Moment capacity\<close>

text \<open>
  The engine caps the capacity of an over-reinforced section: when the neutral axis depth
  exceeds \<open>0.48 d\<close> the result is the limiting moment \<open>0.138 fck b d\<^sup>2\<close>.
\<close>

lemma engine_moment_capacity_capped:
  assumes "0 < fy" "0 < fck" "0 < b"
    and "0.48 * d < (0.87 * fy * Ast) / (0.36 * fck * b)"
  shows "calculateMomentCapacity (Num Ast) (Num fy) (Num fck) (Num b) (Num d)
         = Num (0.138 * fck * b * d * d)"
  using assms by (simp add: calculateMomentCapacity_def Let_def)

text \<open>
  Claim C1: when the neutral axis depth exceeds the balanced maximum, the moment capacity
  returned is the limiting moment \<open>0.138 fck b d\<^sup>2\<close>, never a value from the uncapped
  lever arm. The two older copies of \<open>calculateMomentCapacity\<close> break it. For
  \<open>Ast = 1800\<close>, \<open>fy = 500\<close>, \<open>fck = 25\<close>, \<open>b = 200\<close>, \<open>d = 500\<close> the neutral axis
  depth is 435, beyond the balanced 240: the engine returns the limiting moment 172500000,
  versions 2.0 and 1 return 249808320, computed from the uncapped lever arm.
\<close>

theorem moment_capacity_uncapped_variants:
  "calculateMomentCapacity (Num 1800) (Num 500) (Num 25) (Num 200) (Num 500) = Num 172500000 \<and>
   calculateMomentCapacity_v2 (Num 1800) (Num 500) (Num 25) (Num 200) (Num 500) = Num 249808320 \<and>
   calculateMomentCapacity_v1 (Num 1800) (Num 500) (Num 25) (Num 200) (Num 500) = Num 249808320"
  by (simp add: calculateMomentCapacity_def calculateMomentCapacity_v2_def
      calculateMomentCapacity_v1_def Let_def)


subsection \<open>Shear capacity\<close>


text \<open>
  The engine's shear strength is one of the six values of its table, scaled by
  \<open>\<surd>(fck / 25)\<close>.
\<close>

lemma Num_if: "(if c then Num x else Num y) = Num (if c then x else y)"
  by simp

lemma if_chain_cases:
  fixes a1 a2 a3 a4 a5 a6 :: real
  shows "(if c1 then a1 else if c2 then a2 else if c3 then a3 else if c4 then a4
            else if c5 then a5 else a6) \<in> {a1, a2, a3, a4, a5, a6}"
  by simp

lemma engine_shear_capacity_table:
  fixes fck b d Ast :: real
  assumes "0 < fck" "0 < b" "0 < d" "0 \<le> Ast"
  shows "\<exists>tau. (tau = 0.28 \<or> tau = 0.36 \<or> tau = 0.48 \<or> tau = 0.56 \<or> tau = 0.62 \<or> tau = 0.67) \<and>
           calculateShearCapacity (Num fck) (Num b) (Num d) (Num Ast)
             = Num (tau * sqrt (fck / 25) * b * d)"
proof -
  define pt where "pt = Ast * 100 / (b * d)"
  define tau :: real where "tau = (if pt \<le> 0.15 then 0.28 else if pt \<le> 0.25 then 0.36
      else if pt \<le> 0.50 then 0.48 else if pt \<le> 0.75 then 0.56
      else if pt \<le> 1.00 then 0.62 else 0.67)"
  have pt: "(Num Ast * Num 100) / (Num b * Num d) = Num pt"
    using assms by (simp add: pt_def)
  have tauc: "(if Num pt \<le> Num 0.15 then Num 0.28 else if Num pt \<le> Num 0.25 then Num 0.36
      else if Num pt \<le> Num 0.50 then Num 0.48 else if Num pt \<le> Num 0.75 then Num 0.56
      else if Num pt \<le> Num 1.00 then Num 0.62 else Num 0.67) = Num tau"
    unfolding tau_def Num_compare by (simp only: Num_if)
  have "calculateShearCapacity (Num fck) (Num b) (Num d) (Num Ast)
          = Num tau * js_sqrt (Num fck / Num 25) * Num b * Num d"
    unfolding calculateShearCapacity_def Let_def pt tauc by (rule refl)
  also have "\<dots> = Num (tau * sqrt (fck / 25) * b * d)"
    using assms by simp
  finally have eq: "calculateShearCapacity (Num fck) (Num b) (Num d) (Num Ast)
             = Num (tau * sqrt (fck / 25) * b * d)" .
  have "tau \<in> {0.28, 0.36, 0.48, 0.56, 0.62, 0.67}"
    unfolding tau_def by (rule if_chain_cases)
  then have "tau = 0.28 \<or> tau = 0.36 \<or> tau = 0.48 \<or> tau = 0.56 \<or> tau = 0.62 \<or> tau = 0.67"
    by (simp only: insert_iff empty_iff simp_thms)
  with eq show ?thesis by blast
qed



text \<open>
  The beam analysis of version 2.0 itself compares the shear stress with
  \<open>0.25 \<surd>fck\<close> and then sizes the stirrups for the shear beyond \<open>0.5 \<surd>fck b d\<close>: a
  beam of 6 m under 200 kN/m in a 230 by 450 section (grade 25, steel 500) has the shear
  600 kN, the strength 1.25, and stirrups at
  \<open>\<lfloor>100600 / ((600000 - 238625) \<cdot> 1000 / 180525)\<rfloor> = 50\<close> mm.
\<close>

lemma v2_stirrup_sizing:
  "\<exists>r. runBeamAnalysis_v2 \<lparr> beamLength = Num 6, beamUDL = Num 200, beamPointLoad = Num 0,
      beamPointLoadPos = Num 3, beamType = ''simply-supported'', beamWidth = Num 230,
      beamDepth = Num 450, beamFck = Num 25, beamFy = Num 500, beamCover = Num 25 \<rparr> = Inr r \<and>
     v2_concreteShearStrength r = Num 1.25 \<and>
     v2_shearReinforcement r = Stirrups (Num 50)"
  by (simp add: runBeamAnalysis_v2_def beamForces_v2_def materialDB_concrete_def
      materialDB_steel_def Let_def isNaN_def sqrt_25)


subsection \<open>Material grades\<close>

text \<open>
  The grade lookup of \<open>calculateMaterialQuantities\<close> falls back to grade 25 for a grade
  its table does not hold.
\<close>

lemma mix_ratio_falls_back:
  "materialQuantities_ratio (Num 28) = mixRatios (Num 25) \<and>
   materialQuantities_ratio (Num 28)
     = Some \<lparr> cement = Num 1, sand = Num 1, aggregate = Num 2, water = Num 0.45 \<rparr>"
  by (simp add: materialQuantities_ratio_def mixRatios_def)

lemma beamForces_v2_undefined:
  assumes "type = ''simply-supported'' \<or> type = ''cantilever'' \<or> type = ''fixed'' \<or>
           type = ''continuous''"
  shows "beamForces_v2 type L w P a b D None = None"
  using assms by (auto simp add: beamForces_v2_def Let_def)

text \<open>
  The beam analysis of version 2.0 has no such fallback: for a positive span and one of
  the four support types, every concrete grade that the material table does not hold makes
  it stop with a TypeError.
\<close>

lemma absent_grade_type_error:
  assumes "beamLength inp = Num l" and "0 < l"
    and "beamType inp = ''simply-supported'' \<or> beamType inp = ''cantilever'' \<or>
         beamType inp = ''fixed'' \<or> beamType inp = ''continuous''"
    and "materialDB_concrete (beamFck inp) = None"
  shows "runBeamAnalysis_v2 inp = Inl TypeError"
  using assms beamForces_v2_undefined [OF assms(3)]
  by (simp add: runBeamAnalysis_v2_def Let_def isNaN_def)

text \<open>
  Claim C9: a solver asked for a concrete grade that the material table does not hold,
  such as 28, falls back to grade 25, returns a well-formed result and flags the fallback.
  The beam analysis of version 2.0 breaks it: the lookup of grade 28 is undefined, and the
  analysis stops with a TypeError when it reads \<open>concrete.Ec\<close>.
\<close>

theorem grade_28_no_fallback:
  "materialDB_concrete (Num 28) = None \<and>
   runBeamAnalysis_v2 \<lparr> beamLength = Num 6, beamUDL = Num 20, beamPointLoad = Num 0,
      beamPointLoadPos = Num 3, beamType = ''simply-supported'', beamWidth = Num 230,
      beamDepth = Num 450, beamFck = Num 28, beamFy = Num 500, beamCover = Num 25 \<rparr>
   = Inl TypeError"
  by (simp add: materialDB_concrete_def runBeamAnalysis_v2_def beamForces_v2_def Let_def isNaN_def)


subsection \<open>Utilization\<close>

text \<open>
  The beam solver of \<open>app.js\<close> divides the demand by the capacity when the capacity
  compares above 0, and reports 1 otherwise.
\<close>

lemma utilization_guard:
  "res_utilization (runBeamAnalysis u p) =
     (if res_momentCapacity (runBeamAnalysis u p) > Num 0
      then (maxMoment (res_forces (runBeamAnalysis u p)) * Num 1000000)
             / res_momentCapacity (runBeamAnalysis u p)
      else Num 1)"
  by (simp add: runBeamAnalysis_def Let_def)

text \<open>
  Claim C4: when the computed capacity is zero or negative, the utilization is reported
  as a sentinel that makes the verdict unsafe, never as Infinity or NaN; it is the demand
  divided by the capacity when the capacity is positive. The first part is broken. In
  \<open>app.js\<close>, a beam with \<open>D = 60\<close> and \<open>cover = 50\<close> has effective depth 0; its
  capacity is NaN, the utilization is reported as 1, and the verdict is safe. In version
  2.0, which divides without any guard, a span of 6 under a load of 200 leads to a negative
  capacity and a negative utilization, and the design status reads \<open>Adequate\<close>.
\<close>

theorem nonpositive_capacity_not_flagged:
  "res_momentCapacity (runBeamAnalysis (getUnitConfig ''metric'')
      \<lparr> m_type = Str ''simply-supported'', m_L = Num 6, m_b = Num 230,
      m_D = Num 60, m_DL = Num 10, m_LL = Num 15, m_fck = Num 25, m_fy = Num 500,
      m_cover = Num 50, m_factoredUDL = Num 0 \<rparr>) = NaN \<and>
   res_utilization (runBeamAnalysis (getUnitConfig ''metric'')
       \<lparr> m_type = Str ''simply-supported'', m_L = Num 6, m_b = Num 230,
      m_D = Num 60, m_DL = Num 10, m_LL = Num 15, m_fck = Num 25, m_fy = Num 500,
      m_cover = Num 50, m_factoredUDL = Num 0 \<rparr>) = Num 1 \<and>
   res_isSafe (runBeamAnalysis (getUnitConfig ''metric'')
       \<lparr> m_type = Str ''simply-supported'', m_L = Num 6, m_b = Num 230,
      m_D = Num 60, m_DL = Num 10, m_LL = Num 15, m_fck = Num 25, m_fy = Num 500,
      m_cover = Num 50, m_factoredUDL = Num 0 \<rparr>) \<and>
   (\<exists>r. runBeamAnalysis_v2 \<lparr> beamLength = Num 6, beamUDL = Num 200, beamPointLoad = Num 0,
      beamPointLoadPos = Num 0, beamType = ''simply-supported'', beamWidth = Num 230,
      beamDepth = Num 450, beamFck = Num 25, beamFy = Num 500, beamCover = Num 25 \<rparr> = Inr r \<and>
      v2_momentCapacity r < Num 0 \<and> v2_utilization r < Num 0 \<and>
      v2_designStatus r = ''Adequate'')"
  by (simp add: runBeamAnalysis_def getUnitConfig_def convertBeamStateToMetric_def
        calculateBeamForces_def calculateSteelArea_def
      calculateDoublyReinforcedSteel_def calculateMomentCapacity_def calculateShearCapacity_def
      runBeamAnalysis_v2_def beamForces_v2_def materialDB_concrete_def
      calculateMomentOfInertia_def calculateSteelArea_v2_def calculateMomentCapacity_v2_def
      calculateShearCapacity_v2_def
      Let_def sqrt_25 js_max_def isNaN_def js_ops)


subsection \<open>Provided reinforcement\<close>

text \<open>
  Claim C3 (in every solver the provided steel is at least the required and the minimum
  steel), as stated, fails for the column and the slab solver, which clamp the provided
  steel to the 4 percent maximum. A 300 by 450 column under 3000 kN needs more than
  9402 square millimetres and is given 5400; a 120 mm slab in Fe 250 that needs 4140 is
  given 3680.
\<close>

theorem provided_steel_clamped_counterexample:
  "col_astProvided (runColumnDesign \<lparr> col_width = Num 300, col_depth = Num 450,
      col_axialLoad = Num 3000, col_fck = Num 25, col_fy = Num 500 \<rparr>) = Num 5400 \<and>
   Num 9402 < steelAreaRequired (runColumnDesign \<lparr> col_width = Num 300, col_depth = Num 450,
      col_axialLoad = Num 3000, col_fck = Num 25, col_fy = Num 500 \<rparr>) \<and>
   runSlabDesign \<lparr> s_type = ''one-way'', s_length = Num 5, s_width = Num 4, s_thickness = Num 120,
      s_DL = Num 5.18, s_LL = Num 10, s_fck = Num 25, s_fy = Num 250, s_cover = Num 20 \<rparr>
   = \<lparr> astRequired = Num 4140, astMin = Num 144, astMax = Num 3680, astProvided = Num 3680 \<rparr>"
  by (simp add: runColumnDesign_def runSlabDesign_def calculateSlabMoments_def
      calculateSlabReinforcement_def Let_def sqrt_hundredth)

text \<open>
  Claim C3, amended. Whenever the areas involved are not NaN: both beam solvers provide
  at least the required and the minimum steel; the slab solver provides
  \<open>min (max required minimum) maximum\<close>, which is at least the required and the minimum
  steel exactly when neither exceeds the maximum; the column solver provides
  \<open>min required maximum\<close>, which is at least the required steel exactly when that does
  not exceed the maximum.
\<close>

theorem provided_steel_bounds:
  assumes "res_Ast_req (runBeamAnalysis u p) \<noteq> NaN" and "res_Ast_min (runBeamAnalysis u p) \<noteq> NaN"
    and "runBeamAnalysis_v2 inp = Inr r" and "v2_Ast_req r \<noteq> NaN" and "v2_Ast_min r \<noteq> NaN"
    and "astRequired (runSlabDesign s) \<noteq> NaN" and "astMin (runSlabDesign s) \<noteq> NaN"
    and "astMax (runSlabDesign s) \<noteq> NaN"
    and "steelAreaRequired (runColumnDesign c) \<noteq> NaN" and "col_astMax (runColumnDesign c) \<noteq> NaN"
  shows "res_Ast_req (runBeamAnalysis u p) \<le> res_Ast_prov (runBeamAnalysis u p) \<and>
         res_Ast_min (runBeamAnalysis u p) \<le> res_Ast_prov (runBeamAnalysis u p) \<and>
         v2_Ast_req r \<le> v2_Ast r \<and> v2_Ast_min r \<le> v2_Ast r \<and>
         astProvided (runSlabDesign s) =
           js_min (js_max (astRequired (runSlabDesign s)) (astMin (runSlabDesign s)))
                  (astMax (runSlabDesign s)) \<and>
         ((astRequired (runSlabDesign s) \<le> astProvided (runSlabDesign s) \<and>
           astMin (runSlabDesign s) \<le> astProvided (runSlabDesign s)) \<longleftrightarrow>
          (astRequired (runSlabDesign s) \<le> astMax (runSlabDesign s) \<and>
           astMin (runSlabDesign s) \<le> astMax (runSlabDesign s))) \<and>
         col_astProvided (runColumnDesign c) =
           js_min (steelAreaRequired (runColumnDesign c)) (col_astMax (runColumnDesign c)) \<and>
         (steelAreaRequired (runColumnDesign c) \<le> col_astProvided (runColumnDesign c) \<longleftrightarrow>
          steelAreaRequired (runColumnDesign c) \<le> col_astMax (runColumnDesign c))"
proof -
  have beam: "res_Ast_prov (runBeamAnalysis u p) =
      js_max (res_Ast_req (runBeamAnalysis u p)) (res_Ast_min (runBeamAnalysis u p))"
    by (simp add: runBeamAnalysis_def Let_def)
  have v2: "v2_Ast r = js_max (v2_Ast_req r) (v2_Ast_min r)"
    using assms(3) by (auto simp add: runBeamAnalysis_v2_def Let_def split: if_splits option.splits)
  have slab: "astProvided (runSlabDesign s) =
      js_min (js_max (astRequired (runSlabDesign s)) (astMin (runSlabDesign s)))
             (astMax (runSlabDesign s))"
    by (simp add: runSlabDesign_def Let_def)
  have col: "col_astProvided (runColumnDesign c) =
      js_min (steelAreaRequired (runColumnDesign c)) (col_astMax (runColumnDesign c))"
    by (simp add: runColumnDesign_def Let_def)
  let ?m = "js_max (astRequired (runSlabDesign s)) (astMin (runSlabDesign s))"
  have m: "?m \<noteq> NaN" using js_max_ge [OF assms(6,7)] by simp
  have "(astRequired (runSlabDesign s) \<le> astProvided (runSlabDesign s) \<and>
         astMin (runSlabDesign s) \<le> astProvided (runSlabDesign s)) \<longleftrightarrow>
        ?m \<le> js_min ?m (astMax (runSlabDesign s))"
    unfolding slab
    using assms(6,7,8) m
    by (cases "astRequired (runSlabDesign s)"; cases "astMin (runSlabDesign s)";
        cases "astMax (runSlabDesign s)")
       (auto simp add: js_max_def js_min_def isNaN_def js_ops)
  also have "\<dots> \<longleftrightarrow> ?m \<le> astMax (runSlabDesign s)"
    using js_min_ge_iff [OF m assms(8)] .
  also have "\<dots> \<longleftrightarrow> (astRequired (runSlabDesign s) \<le> astMax (runSlabDesign s) \<and>
           astMin (runSlabDesign s) \<le> astMax (runSlabDesign s))"
    using js_max_le_iff [OF assms(6,7,8)] .
  finally have slab_iff: "(astRequired (runSlabDesign s) \<le> astProvided (runSlabDesign s) \<and>
         astMin (runSlabDesign s) \<le> astProvided (runSlabDesign s)) \<longleftrightarrow>
        (astRequired (runSlabDesign s) \<le> astMax (runSlabDesign s) \<and>
           astMin (runSlabDesign s) \<le> astMax (runSlabDesign s))" .
  have col_iff: "steelAreaRequired (runColumnDesign c) \<le> col_astProvided (runColumnDesign c) \<longleftrightarrow>
          steelAreaRequired (runColumnDesign c) \<le> col_astMax (runColumnDesign c)"
    unfolding col using js_min_ge_iff [OF assms(9,10)] .
  show ?thesis
    using js_max_ge [OF assms(1,2)] js_max_ge [OF assms(4,5)] beam v2 slab col slab_iff col_iff
    by simp
qed

theorem provided_steel_bounds_witness:
  "res_Ast_req (runBeamAnalysis (getUnitConfig ''metric'')
      \<lparr> m_type = Str ''simply-supported'', m_L = Num 6, m_b = Num 230,
      m_D = Num 450, m_DL = Num 10, m_LL = Num 15, m_fck = Num 25, m_fy = Num 500,
      m_cover = Num 25, m_factoredUDL = Num 0 \<rparr>)
    \<le> res_Ast_prov (runBeamAnalysis (getUnitConfig ''metric'')
        \<lparr> m_type = Str ''simply-supported'', m_L = Num 6, m_b = Num 230,
      m_D = Num 450, m_DL = Num 10, m_LL = Num 15, m_fck = Num 25, m_fy = Num 500,
      m_cover = Num 25, m_factoredUDL = Num 0 \<rparr>) \<and>
   (\<exists>r. runBeamAnalysis_v2 \<lparr> beamLength = Num 6, beamUDL = Num 200, beamPointLoad = Num 0,
      beamPointLoadPos = Num 0, beamType = ''simply-supported'', beamWidth = Num 230,
      beamDepth = Num 450, beamFck = Num 25, beamFy = Num 500, beamCover = Num 25 \<rparr> = Inr r \<and>
      v2_Ast_req r \<le> v2_Ast r \<and> v2_Ast_min r \<le> v2_Ast r) \<and>
   astRequired (runSlabDesign \<lparr> s_type = ''one-way'', s_length = Num 5, s_width = Num 4,
      s_thickness = Num 120, s_DL = Num 5.18, s_LL = Num 10, s_fck = Num 25, s_fy = Num 500,
      s_cover = Num 20 \<rparr>)
    \<le> astProvided (runSlabDesign \<lparr> s_type = ''one-way'', s_length = Num 5, s_width = Num 4,
      s_thickness = Num 120, s_DL = Num 5.18, s_LL = Num 10, s_fck = Num 25, s_fy = Num 500,
      s_cover = Num 20 \<rparr>) \<and>
   steelAreaRequired (runColumnDesign \<lparr> col_width = Num 300, col_depth = Num 450,
      col_axialLoad = Num 1000, col_fck = Num 25, col_fy = Num 500 \<rparr>)
    \<le> col_astProvided (runColumnDesign \<lparr> col_width = Num 300, col_depth = Num 450,
      col_axialLoad = Num 1000, col_fck = Num 25, col_fy = Num 500 \<rparr>)"
proof -
  let ?p = "\<lparr> m_type = Str ''simply-supported'', m_L = Num 6, m_b = Num 230,
      m_D = Num 450, m_DL = Num 10, m_LL = Num 15, m_fck = Num 25, m_fy = Num 500,
      m_cover = Num 25, m_factoredUDL = Num 0 \<rparr>"
  let ?inp = "\<lparr> beamLength = Num 6, beamUDL = Num 200, beamPointLoad = Num 0,
      beamPointLoadPos = Num 0, beamType = ''simply-supported'', beamWidth = Num 230,
      beamDepth = Num 450, beamFck = Num 25, beamFy = Num 500, beamCover = Num 25 \<rparr>"
  let ?s = "\<lparr> s_type = ''one-way'', s_length = Num 5, s_width = Num 4,
      s_thickness = Num 120, s_DL = Num 5.18, s_LL = Num 10, s_fck = Num 25, s_fy = Num 500,
      s_cover = Num 20 \<rparr>"
  let ?c = "\<lparr> col_width = Num 300, col_depth = Num 450,
      col_axialLoad = Num 1000, col_fck = Num 25, col_fy = Num 500 \<rparr>"
  have p: "res_Ast_req (runBeamAnalysis (getUnitConfig ''metric'') ?p) \<noteq> NaN" "res_Ast_min (runBeamAnalysis (getUnitConfig ''metric'') ?p) \<noteq> NaN"
    by (simp_all add: runBeamAnalysis_def getUnitConfig_def convertBeamStateToMetric_def calculateBeamForces_def calculateSteelArea_def
        calculateDoublyReinforcedSteel_def Let_def)
  obtain r where r: "runBeamAnalysis_v2 ?inp = Inr r" "v2_Ast_req r \<noteq> NaN" "v2_Ast_min r \<noteq> NaN"
    by (simp add: runBeamAnalysis_v2_def beamForces_v2_def materialDB_concrete_def
        calculateMomentOfInertia_def calculateSteelArea_v2_def Let_def isNaN_def)
  have s: "runSlabDesign ?s =
      \<lparr> astRequired = Num 2070, astMin = Num 144, astMax = Num 3680, astProvided = Num 2070 \<rparr>"
    by (simp add: runSlabDesign_def calculateSlabMoments_def calculateSlabReinforcement_def
        Let_def sqrt_hundredth)
  have c: "runColumnDesign ?c = \<lparr> steelAreaRequired = Num 1080, col_astMin = Num 1080,
      col_astMax = Num 5400, col_astProvided = Num 1080 \<rparr>"
    by (simp add: runColumnDesign_def Let_def)
  from provided_steel_bounds [OF p r, of ?s ?c] r(1) s c show ?thesis
    by simp
qed



subsection \<open>Required steel area of the engine, on finite numbers\<close>

text \<open>
  For positive \<open>fck\<close>, \<open>b\<close>, \<open>d\<close> and a moment up to the limiting moment, the radicand
  of the singly reinforced formula is at least 0.3652, so the square root is a number.
\<close>

lemma steel_radicand:
  fixes fck b d M :: real
  assumes "0 < fck" "0 < b" "0 < d" "M \<le> 0.138 * fck * b * d * d"
  shows "0.3652 \<le> 1 - 4.6 * (M / (b * d * d)) / fck"
proof -
  have K: "0 < fck * b * d * d" using assms by simp
  have eq: "4.6 * (M / (b * d * d)) / fck = 4.6 * M / (fck * b * d * d)"
    using assms by (simp add: field_simps)
  have "4.6 * M \<le> 0.6348 * (fck * b * d * d)" using assms(4) by (simp add: algebra_simps)
  then have "4.6 * M / (fck * b * d * d) \<le> 0.6348"
    using K by (simp only: pos_divide_le_eq)
  with eq show ?thesis by simp
qed

lemma steel_singly:
  assumes "0 < fck" "0 < fy" "0 < b" "0 < d" "M \<le> 0.138 * fck * b * d * d"
  shows "calculateSteelArea (Num M) (Num fck) (Num fy) (Num b) (Num d) =
     Num (min (max ((50 * fck / fy) * (1 - sqrt (1 - 4.6 * (M / (b * d * d)) / fck)) * b * d / 100)
                   (max (0.0012 * b * d) (0.85 * b * d / fy)))
              (0.04 * b * d))"
proof -
  have "0 \<le> 1 - 4.6 * (M / (b * d * d)) / fck"
    using steel_radicand [OF assms(1,3,4,5)] by simp
  then show ?thesis
    using assms by (simp add: calculateSteelArea_def Let_def)
qed

lemma steel_doubly:
  assumes "0 < fck" "0 < fy" "0 < b" "0 < d" "d \<noteq> 25" "0.138 * fck * b * d * d < M"
  shows "calculateSteelArea (Num M) (Num fck) (Num fy) (Num b) (Num d) =
     Num (0.138 * fck * b * d * d / (0.87 * fy * (d - 0.416 * 0.48 * d))
          + (M - 0.138 * fck * b * d * d) / (0.87 * fy * (d - 25)))"
  using assms by (simp add: calculateSteelArea_def calculateDoublyReinforcedSteel_def Let_def)

lemma capacity_Num:
  assumes "0 < fck" "0 < b"
  shows "calculateMomentCapacity (Num Ast) (Num fy) (Num fck) (Num b) (Num d) =
     Num (if 0.48 * d < 0.87 * fy * Ast / (0.36 * fck * b) then 0.138 * fck * b * d * d
          else 0.36 * fck * b * (0.87 * fy * Ast / (0.36 * fck * b))
               * (d - 0.416 * (0.87 * fy * Ast / (0.36 * fck * b))))"
  using assms by (simp add: calculateMomentCapacity_def Let_def)

lemma sqrt_49_100: "sqrt (49 / 100) = 7 / 10"
  by (rule real_sqrt_unique) (simp_all add: power2_eq_square)

lemma sqrt_961_2500: "sqrt (961 / 2500) = 31 / 50"
  by (rule real_sqrt_unique) (simp_all add: power2_eq_square)


subsection \<open>Steel area and moment capacity, round trip\<close>

text \<open>The stress block capacity as a function of the neutral axis depth.\<close>

lemma block_mono:
  fixes fck b d x y :: real
  assumes "0 < fck" "0 < b" "0 < d" "x \<le> y" "0 \<le> x" "y \<le> 0.48 * d"
  shows "0.36 * fck * b * x * (d - 0.416 * x) \<le> 0.36 * fck * b * y * (d - 0.416 * y)"
proof -
  have "0 \<le> (y - x) * (d - 0.416 * (x + y))"
    using assms by (intro mult_nonneg_nonneg) simp_all
  moreover have "(y - x) * (d - 0.416 * (x + y)) = y * (d - 0.416 * y) - x * (d - 0.416 * x)"
    by (simp add: field_simps)
  ultimately have "x * (d - 0.416 * x) \<le> y * (d - 0.416 * y)"
    by simp
  moreover have "0 \<le> 0.36 * fck * b" using assms by simp
  ultimately have "0.36 * fck * b * (x * (d - 0.416 * x)) \<le> 0.36 * fck * b * (y * (d - 0.416 * y))"
    by (rule mult_left_mono)
  then show ?thesis by (simp add: mult.assoc)
qed

text \<open>With \<open>t = 1 - \<surd>(1 - 4.6 k)\<close>: the demand is \<open>K t (2 - t) / 4.6\<close> and the unclamped
  steel gives the capacity \<open>K 0.435 t (1 - 0.416 (0.87/0.72) t)\<close>.\<close>

lemma roundtrip_core:
  fixes K t :: real
  assumes "0 < K" "0 \<le> t" "t \<le> 0.4"
  shows "0.999 * (K * t * (2 - t) / 4.6) \<le> K * (0.435 * t * (1 - 0.416 * (0.87 / 0.72) * t))"
proof -
  have lin: "0 \<le> 0.435 * (1 - 0.416 * (0.87 / 0.72) * t) - 0.999 * (2 - t) / 4.6"
    using assms(3) by simp
  have "0 \<le> K * t * (0.435 * (1 - 0.416 * (0.87 / 0.72) * t) - 0.999 * (2 - t) / 4.6)"
    using assms lin by (intro mult_nonneg_nonneg) simp_all
  moreover have "K * t * (0.435 * (1 - 0.416 * (0.87 / 0.72) * t) - 0.999 * (2 - t) / 4.6)
      = K * (0.435 * t * (1 - 0.416 * (0.87 / 0.72) * t)) - 0.999 * (K * t * (2 - t) / 4.6)"
    by (simp add: field_simps)
  ultimately show ?thesis by simp
qed

lemma roundtrip_core_exact:
  fixes K t :: real
  assumes "0 < K" "0 \<le> t" "t \<le> 0.1712"
  shows "K * t * (2 - t) / 4.6 \<le> K * (0.435 * t * (1 - 0.416 * (0.87 / 0.72) * t))"
proof -
  have lin: "0 \<le> 0.435 * (1 - 0.416 * (0.87 / 0.72) * t) - (2 - t) / 4.6"
    using assms(3) by simp
  have "0 \<le> K * t * (0.435 * (1 - 0.416 * (0.87 / 0.72) * t) - (2 - t) / 4.6)"
    using assms lin by (intro mult_nonneg_nonneg) simp_all
  moreover have "K * t * (0.435 * (1 - 0.416 * (0.87 / 0.72) * t) - (2 - t) / 4.6)
      = K * (0.435 * t * (1 - 0.416 * (0.87 / 0.72) * t)) - K * t * (2 - t) / 4.6"
    by (simp add: field_simps)
  ultimately show ?thesis by simp
qed

lemma roundtrip_real:
  fixes fck fy b d M :: real
  assumes pos: "0 < fck" "0 < fy" "0 < b" "0 < d"
    and M: "0 < M" "M \<le> 0.138 * fck * b * d * d"
    and grades: "fck \<le> fy / 5" "21.25 \<le> fy"
  defines "As \<equiv> min (max ((50 * fck / fy) * (1 - sqrt (1 - 4.6 * (M / (b * d * d)) / fck)) * b * d / 100)
                   (max (0.0012 * b * d) (0.85 * b * d / fy)))
              (0.04 * b * d)"
  defines "cap \<equiv> (if 0.48 * d < 0.87 * fy * As / (0.36 * fck * b) then 0.138 * fck * b * d * d
          else 0.36 * fck * b * (0.87 * fy * As / (0.36 * fck * b))
               * (d - 0.416 * (0.87 * fy * As / (0.36 * fck * b))))"
  shows "0.999 * M \<le> cap" and "M \<le> 0.068 * fck * b * d * d \<Longrightarrow> M \<le> cap"
proof -
  define K where "K = fck * b * d * d"
  define r where "r = 1 - 4.6 * (M / (b * d * d)) / fck"
  define t where "t = 1 - sqrt r"
  define A where "A = (50 * fck / fy) * (1 - sqrt r) * b * d / 100"
  define x0 where "x0 = 0.87 * fy * A / (0.36 * fck * b)"
  define xu where "xu = 0.87 * fy * As / (0.36 * fck * b)"
  have K: "0 < K" using pos by (simp add: K_def)
  have r_eq: "r = 1 - 4.6 * M / K"
    using pos by (simp add: r_def K_def field_simps)
  have r_lo: "0.3652 \<le> r" unfolding r_def using steel_radicand [OF pos(1,3,4) M(2)] .
  have r_hi: "r < 1" using M(1) K by (simp add: r_eq)
  have s_lo: "0.6 \<le> sqrt r"
    by (rule real_le_rsqrt) (use r_lo in \<open>simp add: power2_eq_square\<close>)
  have s_hi: "sqrt r < 1" using r_hi by simp
  have s_sq: "sqrt r * sqrt r = r" using r_lo by simp
  have t_bounds: "0 < t" "t \<le> 0.4" using s_lo s_hi by (simp_all add: t_def)
  have "t * (2 - t) = 1 - sqrt r * sqrt r" by (simp add: t_def algebra_simps)
  also have "\<dots> = 4.6 * M / K" using s_sq r_eq by simp
  finally have M_eq: "M = K * t * (2 - t) / 4.6" using K by (simp add: field_simps)
  have A_eq: "A = fck * b * d * t / (2 * fy)" using pos by (simp add: A_def t_def field_simps)
  have x0_eq: "x0 = (0.87 / 0.72) * t * d" using pos by (simp add: x0_def A_eq field_simps)
  have x0_pos: "0 \<le> x0" using t_bounds pos by (simp add: x0_eq)
  have bd: "0 < b * d" using pos by simp
  have "A = (fck / fy) * (t / 2) * (b * d)" using pos by (simp add: A_eq field_simps)
  also have "\<dots> \<le> (1 / 5) * (0.4 / 2) * (b * d)"
  proof -
    have "fck / fy \<le> 1 / 5" using grades(1) pos by (simp add: field_simps)
    moreover have "0 \<le> fck / fy" using pos by simp
    moreover have "t / 2 \<le> 0.4 / 2" "0 \<le> t / 2" using t_bounds by simp_all
    ultimately have "(fck / fy) * (t / 2) \<le> (1 / 5) * (0.4 / 2)"
      by (intro mult_mono) simp_all
    then show ?thesis using bd by (simp only: mult_right_mono less_imp_le)
  qed
  finally have A_max: "A \<le> 0.04 * b * d" by simp
  have min1: "0.0012 * b * d \<le> 0.04 * b * d" using bd by simp
  have "0.85 / fy \<le> 0.04" using grades(2) pos by (simp add: field_simps)
  then have "0.85 / fy * (b * d) \<le> 0.04 * (b * d)" using bd by (simp only: mult_right_mono less_imp_le)
  then have min2: "0.85 * b * d / fy \<le> 0.04 * b * d" by simp
  have As_eq: "As = max A (max (0.0012 * b * d) (0.85 * b * d / fy))"
    unfolding As_def A_def [symmetric, unfolded r_def] using A_max min1 min2 by simp
  have A_le: "A \<le> As" by (simp add: As_eq)
  have x_le: "x0 \<le> xu"
  proof -
    have "0.87 * fy * A \<le> 0.87 * fy * As" using A_le pos by simp
    moreover have "0 \<le> 0.36 * fck * b" using pos by simp
    ultimately show ?thesis unfolding x0_def xu_def by (rule divide_right_mono)
  qed
  have cap_eq: "cap = (if 0.48 * d < xu then 0.138 * K else 0.36 * fck * b * xu * (d - 0.416 * xu))"
    by (simp add: cap_def xu_def K_def)
  have G0: "0.36 * fck * b * x0 * (d - 0.416 * x0) = K * (0.435 * t * (1 - 0.416 * (0.87 / 0.72) * t))"
    by (simp add: x0_eq K_def field_simps)
  have M_lim: "M \<le> 0.138 * K" using M(2) by (simp add: K_def)
  show "0.999 * M \<le> cap"
  proof (cases "0.48 * d < xu")
    case True
    then show ?thesis using M_lim M(1) by (simp add: cap_eq)
  next
    case False
    then have xu_le: "xu \<le> 0.48 * d" by simp
    have "0.999 * M \<le> K * (0.435 * t * (1 - 0.416 * (0.87 / 0.72) * t))"
      unfolding M_eq by (rule roundtrip_core [OF K less_imp_le [OF t_bounds(1)] t_bounds(2)])
    also have "\<dots> = 0.36 * fck * b * x0 * (d - 0.416 * x0)" by (rule G0 [symmetric])
    also have "\<dots> \<le> 0.36 * fck * b * xu * (d - 0.416 * xu)"
      by (rule block_mono [OF pos(1,3,4) x_le x0_pos xu_le])
    also have "\<dots> = cap" using False by (simp only: cap_eq if_False)
    finally show ?thesis .
  qed
  show "M \<le> cap" if small: "M \<le> 0.068 * fck * b * d * d"
  proof (cases "0.48 * d < xu")
    case True
    then show ?thesis using M_lim by (simp add: cap_eq)
  next
    case False
    have "4.6 * M \<le> 0.3128 * K" using small by (simp add: K_def algebra_simps)
    then have "4.6 * M / K \<le> 0.3128" using K by (simp only: pos_divide_le_eq)
    then have "0.6872 \<le> r" by (simp add: r_eq)
    then have "0.8288 \<le> sqrt r"
      by (intro real_le_rsqrt) (simp add: power2_eq_square)
    then have t_small: "t \<le> 0.1712" by (simp add: t_def)
    from False have xu_le: "xu \<le> 0.48 * d" by simp
    have "M \<le> K * (0.435 * t * (1 - 0.416 * (0.87 / 0.72) * t))"
      unfolding M_eq by (rule roundtrip_core_exact [OF K less_imp_le [OF t_bounds(1)] t_small])
    also have "\<dots> = 0.36 * fck * b * x0 * (d - 0.416 * x0)" by (rule G0 [symmetric])
    also have "\<dots> \<le> 0.36 * fck * b * xu * (d - 0.416 * xu)"
      by (rule block_mono [OF pos(1,3,4) x_le x0_pos xu_le])
    also have "\<dots> = cap" using False by (simp only: cap_eq if_False)
    finally show ?thesis .
  qed
qed

text \<open>
  Claim C2 (the steel area computed for a moment \<open>M\<close> up to the limiting moment has a
  capacity of at least \<open>M\<close>), as stated, fails: for \<open>M = 102000000\<close>, \<open>fck = 25\<close>, \<open>fy = 500\<close>,
  \<open>b = 230\<close>, \<open>d = 400\<close> (below the limiting moment 126960000) the steel area is 690 and
  its capacity is 101954952, less than \<open>M\<close>.
\<close>

theorem steel_roundtrip_counterexample:
  "calculateSteelArea (Num 102000000) (Num 25) (Num 500) (Num 230) (Num 400) = Num 690 \<and>
   calculateMomentCapacity (calculateSteelArea (Num 102000000) (Num 25) (Num 500) (Num 230) (Num 400))
      (Num 500) (Num 25) (Num 230) (Num 400) = Num 101954952 \<and>
   \<not> Num 102000000 \<le>
     calculateMomentCapacity (calculateSteelArea (Num 102000000) (Num 25) (Num 500) (Num 230) (Num 400))
      (Num 500) (Num 25) (Num 230) (Num 400)"
  by (simp add: calculateSteelArea_def calculateMomentCapacity_def Let_def sqrt_49_100)

text \<open>
  The beam solver of \<open>app.js\<close> then rejects its own design: for this moment (span 4,
  loads 14 and 20, depth 435, cover 25) it provides the 690 and reports a utilization
  above 1 and an unsafe verdict.
\<close>

lemma designed_beam_reported_unsafe:
  "res_Ast_prov (runBeamAnalysis (getUnitConfig ''metric'')
      \<lparr> m_type = Str ''simply-supported'', m_L = Num 4, m_b = Num 230,
      m_D = Num 435, m_DL = Num 14, m_LL = Num 20, m_fck = Num 25, m_fy = Num 500,
      m_cover = Num 25, m_factoredUDL = Num 0 \<rparr>) = Num 690 \<and>
   Num 1 < res_utilization (runBeamAnalysis (getUnitConfig ''metric'')
       \<lparr> m_type = Str ''simply-supported'', m_L = Num 4, m_b = Num 230,
      m_D = Num 435, m_DL = Num 14, m_LL = Num 20, m_fck = Num 25, m_fy = Num 500,
      m_cover = Num 25, m_factoredUDL = Num 0 \<rparr>) \<and>
   \<not> res_isSafe (runBeamAnalysis (getUnitConfig ''metric'')
       \<lparr> m_type = Str ''simply-supported'', m_L = Num 4, m_b = Num 230,
      m_D = Num 435, m_DL = Num 14, m_LL = Num 20, m_fck = Num 25, m_fy = Num 500,
      m_cover = Num 25, m_factoredUDL = Num 0 \<rparr>)"
  by (simp add: runBeamAnalysis_def getUnitConfig_def convertBeamStateToMetric_def
        calculateBeamForces_def calculateSteelArea_def
      calculateMomentCapacity_def calculateShearCapacity_def Let_def sqrt_49_100 sqrt_25)

text \<open>
  When the 4 percent maximum limits the steel, the capacity falls short by far more: for
  \<open>fck = 60\<close>, \<open>fy = 250\<close> the steel for a moment of 18468000 is cut to 920 and resists
  less than 16700000.
\<close>

lemma steel_roundtrip_maximum_binds:
  "calculateSteelArea (Num 18468000) (Num 60) (Num 250) (Num 230) (Num 100) = Num 920 \<and>
   calculateMomentCapacity (Num 920) (Num 250) (Num 60) (Num 230) (Num 100) < Num 16700000"
  by (simp add: calculateSteelArea_def calculateMomentCapacity_def Let_def sqrt_961_2500)

text \<open>
  Claim C2, amended. For positive \<open>fck\<close>, \<open>fy\<close>, \<open>b\<close>, \<open>d\<close> with \<open>fck \<le> fy / 5\<close> and
  \<open>fy \<ge> 21.25\<close> (so that the 4 percent maximum does not limit the steel; true of every
  grade pair of the material table) and \<open>0 < M \<le> 0.138 fck b d\<^sup>2\<close>, the steel area computed
  for \<open>M\<close> has a capacity of at least \<open>0.999 M\<close>, and of at least \<open>M\<close> when
  \<open>M \<le> 0.068 fck b d\<^sup>2\<close>.
\<close>

theorem steel_roundtrip_tolerance:
  assumes "0 < fck" "0 < fy" "0 < b" "0 < d"
    and "0 < M" "M \<le> 0.138 * fck * b * d * d"
    and "fck \<le> fy / 5" "21.25 \<le> fy"
  shows "Num (0.999 * M) \<le>
           calculateMomentCapacity (calculateSteelArea (Num M) (Num fck) (Num fy) (Num b) (Num d))
             (Num fy) (Num fck) (Num b) (Num d) \<and>
         (M \<le> 0.068 * fck * b * d * d \<longrightarrow>
          Num M \<le>
           calculateMomentCapacity (calculateSteelArea (Num M) (Num fck) (Num fy) (Num b) (Num d))
             (Num fy) (Num fck) (Num b) (Num d))"
  unfolding steel_singly [OF assms(1,2,3,4,6)] capacity_Num [OF assms(1,3)] Num_compare
  using roundtrip_real [OF assms] by blast

theorem steel_roundtrip_tolerance_witness:
  "Num (0.999 * 60000000) \<le>
     calculateMomentCapacity (calculateSteelArea (Num 60000000) (Num 25) (Num 500) (Num 230) (Num 400))
       (Num 500) (Num 25) (Num 230) (Num 400) \<and>
   Num 60000000 \<le>
     calculateMomentCapacity (calculateSteelArea (Num 60000000) (Num 25) (Num 500) (Num 230) (Num 400))
       (Num 500) (Num 25) (Num 230) (Num 400)"
  using steel_roundtrip_tolerance [of 25 500 230 400 60000000] by simp


subsection \<open>Monotonicity of the required steel area\<close>

lemma singly_steel_mono:
  fixes fck fy b d M1 M2 :: real
  assumes pos: "0 < fck" "0 < fy" "0 < b" "0 < d" and le: "M1 \<le> M2"
  shows "(50 * fck / fy) * (1 - sqrt (1 - 4.6 * (M1 / (b * d * d)) / fck)) * b * d / 100
       \<le> (50 * fck / fy) * (1 - sqrt (1 - 4.6 * (M2 / (b * d * d)) / fck)) * b * d / 100"
proof -
  have "M1 / (b * d * d) \<le> M2 / (b * d * d)"
    using le pos by (intro divide_right_mono) simp_all
  then have "4.6 * (M1 / (b * d * d)) \<le> 4.6 * (M2 / (b * d * d))"
    by simp
  then have "4.6 * (M1 / (b * d * d)) / fck \<le> 4.6 * (M2 / (b * d * d)) / fck"
    using pos by (simp only: divide_right_mono less_imp_le)
  then have "sqrt (1 - 4.6 * (M2 / (b * d * d)) / fck) \<le> sqrt (1 - 4.6 * (M1 / (b * d * d)) / fck)"
    by simp
  then have "1 - sqrt (1 - 4.6 * (M1 / (b * d * d)) / fck) \<le> 1 - sqrt (1 - 4.6 * (M2 / (b * d * d)) / fck)"
    by simp
  moreover have "0 \<le> 50 * fck / fy * b * d / 100" using pos by simp
  ultimately have "(50 * fck / fy * b * d / 100) * (1 - sqrt (1 - 4.6 * (M1 / (b * d * d)) / fck))
      \<le> (50 * fck / fy * b * d / 100) * (1 - sqrt (1 - 4.6 * (M2 / (b * d * d)) / fck))"
    by (rule mult_left_mono)
  moreover have "(50 * fck / fy) * u * b * d / 100 = (50 * fck / fy * b * d / 100) * u" for u :: real
    by simp
  ultimately show ?thesis by (simp only:)
qed

lemma singly_below_balanced:
  fixes fck fy b d M :: real
  assumes pos: "0 < fck" "0 < fy" "0 < b" "0 < d" and M: "M \<le> 0.138 * fck * b * d * d"
  shows "(50 * fck / fy) * (1 - sqrt (1 - 4.6 * (M / (b * d * d)) / fck)) * b * d / 100
       \<le> 0.138 * fck * b * d * d / (0.87 * fy * (d - 0.416 * 0.48 * d))"
proof -
  define s where "s = sqrt (1 - 4.6 * (M / (b * d * d)) / fck)"
  have "0.3652 \<le> 1 - 4.6 * (M / (b * d * d)) / fck" by (rule steel_radicand [OF pos(1,3,4) M])
  then have "0.604 \<le> s" unfolding s_def
    by (intro real_le_rsqrt) (simp add: power2_eq_square)
  then have "1 - s \<le> 0.396" by simp
  moreover have c: "0 \<le> fck * b * d / (2 * fy)" using pos by simp
  ultimately have "fck * b * d / (2 * fy) * (1 - s) \<le> fck * b * d / (2 * fy) * 0.396"
    by (rule mult_left_mono)
  also have "\<dots> \<le> 0.138 * fck * b * d * d / (0.87 * fy * (d - 0.416 * 0.48 * d))"
  proof -
    have "0.138 * fck * b * d * d / (0.87 * fy * (d - 0.416 * 0.48 * d))
        = fck * b * d / (2 * fy) * (2 * 0.138 / (0.87 * (1 - 0.416 * 0.48)))"
      using pos by (simp add: field_simps)
    moreover have "(0.396::real) \<le> 2 * 0.138 / (0.87 * (1 - 0.416 * 0.48))" by simp
    ultimately show ?thesis using c by (simp only: mult_left_mono)
  qed
  finally have bound: "fck * b * d / (2 * fy) * (1 - s)
      \<le> 0.138 * fck * b * d * d / (0.87 * fy * (d - 0.416 * 0.48 * d))" .
  have eq: "(50 * fck / fy) * (1 - s) * b * d / 100 = fck * b * d / (2 * fy) * (1 - s)"
    using pos by (simp add: field_simps)
  have "(50 * fck / fy) * (1 - s) * b * d / 100
      \<le> 0.138 * fck * b * d * d / (0.87 * fy * (d - 0.416 * 0.48 * d))"
    unfolding eq by (rule bound)
  then show ?thesis unfolding s_def .
qed

lemma clamp_mono:
  fixes x y lo hi :: real
  shows "x \<le> y \<Longrightarrow> min (max x lo) hi \<le> min (max y lo) hi"
  by (auto simp add: min_def max_def)

text \<open>
  Claim C5 (for fixed positive \<open>fck\<close>, \<open>fy\<close>, \<open>b\<close>, \<open>d\<close> the required steel area
  is non-decreasing in the moment), as stated, fails: with an effective depth of 20, below the 25 assumed for the
  compression steel, the doubly reinforced formula decreases in the moment.
\<close>

theorem steel_area_monotone_counterexample:
  "calculateSteelArea (Num 300000) (Num 25) (Num 500) (Num 100) (Num 20)
     < calculateSteelArea (Num 200000) (Num 25) (Num 500) (Num 100) (Num 20)"
  by (simp add: calculateSteelArea_def calculateDoublyReinforcedSteel_def Let_def)

text \<open>
  It also drops at the switch between the two formulas when the minimum steel exceeds the
  balanced steel, as for \<open>fck = 4\<close>.
\<close>

lemma steel_area_drops_at_switch:
  "calculateSteelArea (Num 510000) (Num 4) (Num 500) (Num 115) (Num 100) = Num 19.55 \<and>
   calculateSteelArea (Num 640000) (Num 4) (Num 500) (Num 115) (Num 100) < Num 18.4"
  by (simp add: calculateSteelArea_def calculateDoublyReinforcedSteel_def Let_def sqrt_49_100)

text \<open>
  Claim C5, amended. For positive \<open>fck\<close>, \<open>fy\<close>, \<open>b\<close>, an effective depth \<open>d > 25\<close> and
  a minimum steel \<open>max (0.0012 b d) (0.85 b d / fy)\<close> that does not exceed the balanced
  steel \<open>0.138 fck b d\<^sup>2 / (0.87 fy (d - 0.416 \<cdot> 0.48 d))\<close>, the required steel area is
  non-decreasing in the moment, over all moments and across the switch from the singly
  to the doubly reinforced formula.
\<close>

theorem steel_area_monotone:
  assumes pos: "0 < fck" "0 < fy" "0 < b" and d: "25 < d"
    and minsteel: "max (0.0012 * b * d) (0.85 * b * d / fy)
                   \<le> 0.138 * fck * b * d * d / (0.87 * fy * (d - 0.416 * 0.48 * d))"
    and le: "M1 \<le> M2"
  shows "calculateSteelArea (Num M1) (Num fck) (Num fy) (Num b) (Num d)
         \<le> calculateSteelArea (Num M2) (Num fck) (Num fy) (Num b) (Num d)"
proof -
  have d0: "0 < d" "d \<noteq> 25" using d by simp_all
  let ?mu = "0.138 * fck * b * d * d"
  let ?A = "\<lambda>M. (50 * fck / fy) * (1 - sqrt (1 - 4.6 * (M / (b * d * d)) / fck)) * b * d / 100"
  let ?Amin = "max (0.0012 * b * d) (0.85 * b * d / fy)"
  let ?Ast1 = "?mu / (0.87 * fy * (d - 0.416 * 0.48 * d))"
  have den: "0 < 0.87 * fy * (d - 25)" using pos d by simp
  consider "M2 \<le> ?mu" | "?mu < M1" | "M1 \<le> ?mu" "?mu < M2" by linarith
  then show ?thesis
  proof cases
    case 1
    then have m1: "M1 \<le> ?mu" using le by simp
    have "?A M1 \<le> ?A M2" by (rule singly_steel_mono [OF pos d0(1) le])
    then have "min (max (?A M1) ?Amin) (0.04 * b * d) \<le> min (max (?A M2) ?Amin) (0.04 * b * d)"
      by (rule clamp_mono)
    then show ?thesis
      unfolding steel_singly [OF pos d0(1) m1] steel_singly [OF pos d0(1) 1] Num_compare .
  next
    case 2
    then have m2: "?mu < M2" using le by simp
    have "(M1 - ?mu) / (0.87 * fy * (d - 25)) \<le> (M2 - ?mu) / (0.87 * fy * (d - 25))"
      using le den by (intro divide_right_mono) simp_all
    then have "?Ast1 + (M1 - ?mu) / (0.87 * fy * (d - 25)) \<le> ?Ast1 + (M2 - ?mu) / (0.87 * fy * (d - 25))"
      by simp
    then show ?thesis
      unfolding steel_doubly [OF pos d0 2] steel_doubly [OF pos d0 m2] Num_compare .
  next
    case 3
    have "?A M1 \<le> ?Ast1" by (rule singly_below_balanced [OF pos d0(1) 3(1)])
    from this minsteel have "max (?A M1) ?Amin \<le> ?Ast1" by (rule max.boundedI)
    then have "min (max (?A M1) ?Amin) (0.04 * b * d) \<le> ?Ast1" by (rule min.coboundedI1)
    also have "?Ast1 \<le> ?Ast1 + (M2 - ?mu) / (0.87 * fy * (d - 25))"
    proof -
      have "0 \<le> M2 - ?mu" using 3(2) by linarith
      then have "0 \<le> (M2 - ?mu) / (0.87 * fy * (d - 25))"
        using den by (intro divide_nonneg_pos)
      then show ?thesis by linarith
    qed
    finally show ?thesis
      unfolding steel_singly [OF pos d0(1) 3(1)] steel_doubly [OF pos d0 3(2)] Num_compare .
  qed
qed

theorem steel_area_monotone_witness:
  "calculateSteelArea (Num 102000000) (Num 25) (Num 500) (Num 230) (Num 400)
   \<le> calculateSteelArea (Num 200000000) (Num 25) (Num 500) (Num 230) (Num 400)"
  using steel_area_monotone [of 25 500 230 400 102000000 200000000] by simp

end
